theory Spec2Isabelle
  imports Complex_Main "HOL-Library.Sublist"
begin

section \<open>JavaScript strings\<close>

text \<open>
  A JavaScript string is a sequence of UTF-16 code units, modelled as a list of
  natural numbers. \<open>lit\<close> turns an ASCII literal of the source into its code units;
  the few non-ASCII literals of the source are written out as code units.
\<close>

type_synonym jsstring = "nat list"

definition lit :: "string \<Rightarrow> jsstring" where
  "lit s = map of_char s"

text \<open>\<open>s.includes(pat)\<close>: \<open>pat\<close> occurs in \<open>s\<close> at some offset.\<close>

fun js_includes :: "jsstring \<Rightarrow> jsstring \<Rightarrow> bool" where
  "js_includes [] pat = (pat = [])"
| "js_includes (c # s) pat = (prefix pat (c # s) \<or> js_includes s pat)"

text \<open>Decimal digits of a number, as a template literal prints a non-negative integer.\<close>

fun digits :: "nat \<Rightarrow> jsstring" where
  "digits n = (if n < 10 then [48 + n] else digits (n div 10) @ [48 + n mod 10])"

declare digits.simps [simp del]

section \<open>JavaScript values\<close>

text \<open>
  The values a parsed JSON document or a request body can hold, with \<open>undefined\<close> for a
  missing property.
\<close>

datatype jsval =
    JUndefined
  | JNull
  | JBool bool
  | JNum real
  | JStr jsstring
  | JArr "jsval list"
  | JObj "(jsstring \<times> jsval) list"

datatype js_error =
    Error jsstring
  | TypeError
  | SyntaxError jsstring

text \<open>Truthiness, as \<open>!v\<close>, \<open>v || w\<close> and \<open>if (v)\<close> test it.\<close>

fun truthy :: "jsval \<Rightarrow> bool" where
  "truthy JUndefined = False"
| "truthy JNull = False"
| "truthy (JBool b) = b"
| "truthy (JNum r) = (r \<noteq> 0)"
| "truthy (JStr s) = (s \<noteq> [])"
| "truthy (JArr vs) = True"
| "truthy (JObj kvs) = True"

text \<open>
  Built-ins of the runtime that the model takes as parameters: \<open>JSON.parse\<close> (\<open>Inl m\<close>
  when it throws a SyntaxError with message \<open>m\<close>), \<open>JSON.stringify\<close>, the conversion to
  string of numbers, arrays and objects, and the message text of the engine's TypeError.
\<close>

record js_builtins =
  json_parse :: "jsstring \<Rightarrow> jsstring + jsval"
  json_stringify :: "jsval \<Rightarrow> jsstring"
  to_string :: "jsval \<Rightarrow> jsstring"
  type_error_text :: jsstring

text \<open>\<open>`${v}`\<close>: the string a template literal puts in place of a value.\<close>

definition interp :: "js_builtins \<Rightarrow> jsval \<Rightarrow> jsstring" where
  "interp env v =
     (case v of
        JStr s \<Rightarrow> s
      | JUndefined \<Rightarrow> lit ''undefined''
      | JNull \<Rightarrow> lit ''null''
      | JBool b \<Rightarrow> (if b then lit ''true'' else lit ''false'')
      | _ \<Rightarrow> to_string env v)"

text \<open>
  \<open>v.k\<close> for the property names the source reads (none of them is a property of a
  built-in prototype): a TypeError on \<open>undefined\<close> and \<open>null\<close>, the own property of an
  object, \<open>undefined\<close> everywhere else.
\<close>

definition get_prop :: "jsval \<Rightarrow> string \<Rightarrow> js_error + jsval" where
  "get_prop v k =
     (case v of
        JUndefined \<Rightarrow> Inl TypeError
      | JNull \<Rightarrow> Inl TypeError
      | JObj kvs \<Rightarrow> Inr (case map_of kvs (lit k) of None \<Rightarrow> JUndefined | Some x \<Rightarrow> x)
      | _ \<Rightarrow> Inr JUndefined)"

text \<open>
  \<open>v[0]\<close>: the first element of an array, the first code unit of a string, the property
  \<open>"0"\<close> of an object.
\<close>

definition get_index0 :: "jsval \<Rightarrow> js_error + jsval" where
  "get_index0 v =
     (case v of
        JUndefined \<Rightarrow> Inl TypeError
      | JNull \<Rightarrow> Inl TypeError
      | JArr vs \<Rightarrow> Inr (case vs of [] \<Rightarrow> JUndefined | x # _ \<Rightarrow> x)
      | JStr s \<Rightarrow> Inr (case s of [] \<Rightarrow> JUndefined | c # _ \<Rightarrow> JStr [c])
      | JObj kvs \<Rightarrow> Inr (case map_of kvs (lit ''0'') of None \<Rightarrow> JUndefined | Some x \<Rightarrow> x)
      | _ \<Rightarrow> Inr JUndefined)"

section \<open>Outbound HTTP\<close>

text \<open>
  A call of \<open>fetch\<close> either throws (with a message) or yields a response with a status
  and a body. The network is a parameter: a function from the request to its outcome.
\<close>

record fetch_request =
  fr_url :: jsstring
  fr_method :: jsstring
  fr_authorization :: jsstring
  fr_body :: "jsval option"

record http_response =
  status :: nat
  body_text :: jsstring

datatype fetch_outcome = FetchThrows jsstring | FetchResponse http_response

text \<open>\<open>response.ok\<close>\<close>

definition ok :: "http_response \<Rightarrow> bool" where
  "ok r = (200 \<le> status r \<and> status r \<le> 299)"

section \<open>The chat proxy handler (api/chat.js)\<close>

text \<open>
  The fields \<open>handler\<close> destructures from \<open>req.body\<close>; a field the body lacks is
  \<open>JUndefined\<close>. A request whose \<open>req.body\<close> is \<open>undefined\<close> or \<open>null\<close> has no body
  (\<open>None\<close>): the destructuring throws.
\<close>

record proxy_body =
  body_platform :: jsval
  body_apiKey :: jsval
  body_model :: jsval
  body_messages :: jsval
  body_apiUrl :: jsval
  body_action :: jsval

record proxy_request =
  req_method :: jsstring
  req_body :: "proxy_body option"

text \<open>
  What the handler answers: the JSON payloads of the source, one constructor for each
  (the error texts of the source are Chinese sentences; the constructors name them).
\<close>

datatype proxy_payload =
    EndNoBody
  | MethodNotAllowed
  | MissingApiKey
  | ModelsNeedCustomOpenAI
  | MissingModelOrMessages
  | MissingApiUrl
  | UnsupportedPlatform
  | InternalError js_error
  | UpstreamUnknownError
  | Passthrough jsval
  | ForwardFailed js_error

record proxy_result =
  res_status :: nat
  res_payload :: proxy_payload
  res_calls :: "fetch_request list"

definition reply :: "nat \<Rightarrow> proxy_payload \<Rightarrow> proxy_result" where
  "reply st p = \<lparr>res_status = st, res_payload = p, res_calls = []\<rparr>"

text \<open>
  \<open>forwardRequest\<close> (lines 74-99). The target is \<open>None\<close> when the URL handed to \<open>fetch\<close>
  is \<open>undefined\<close>: \<open>fetch\<close> then throws a TypeError without reaching the network.
\<close>

definition forwardRequest ::
  "js_builtins \<Rightarrow> (fetch_request \<Rightarrow> fetch_outcome) \<Rightarrow> proxy_body \<Rightarrow> jsstring option \<Rightarrow>
   jsval option \<Rightarrow> string \<Rightarrow> proxy_result" where
  "forwardRequest env net b targetUrl body meth =
     (case targetUrl of
        None \<Rightarrow> reply 500 (ForwardFailed TypeError)
      | Some url \<Rightarrow>
          (let rq = \<lparr>fr_url = url, fr_method = lit meth,
                      fr_authorization = lit ''Bearer '' @ interp env (body_apiKey b),
                      fr_body = (if meth = ''POST'' then body else None)\<rparr>
           in case net rq of
                FetchThrows m \<Rightarrow>
                  \<lparr>res_status = 500, res_payload = ForwardFailed (Error m), res_calls = [rq]\<rparr>
              | FetchResponse r \<Rightarrow>
                  if \<not> ok r then
                    \<lparr>res_status = status r,
                     res_payload = (case json_parse env (body_text r) of
                                      Inl m \<Rightarrow> UpstreamUnknownError
                                    | Inr errorData \<Rightarrow> Passthrough errorData),
                     res_calls = [rq]\<rparr>
                  else
                    (case json_parse env (body_text r) of
                       Inl m \<Rightarrow>
                         \<lparr>res_status = 500, res_payload = ForwardFailed (SyntaxError m),
                          res_calls = [rq]\<rparr>
                     | Inr data \<Rightarrow>
                         \<lparr>res_status = 200, res_payload = Passthrough data, res_calls = [rq]\<rparr>)))"

text \<open>
  \<open>platformConfig[platform]\<close>: the four built-in platforms have a fixed URL. The lookup
  also finds the properties every object inherits, whose value is truthy and has no
  \<open>url\<close>.
\<close>

definition platform_url :: "jsstring \<Rightarrow> jsstring option" where
  "platform_url k =
     (if k = lit ''openai'' then Some (lit ''https://api.openai.com/v1/chat/completions'')
      else if k = lit ''doubao'' then
        Some (lit ''https://ark.cn-beijing.volces.com/api/v3/chat/completions'')
      else if k = lit ''deepseek'' then Some (lit ''https://api.deepseek.com/chat/completions'')
      else if k = lit ''openrouter'' then
        Some (lit ''https://openrouter.ai/api/v1/chat/completions'')
      else None)"

definition inherited_property :: "jsstring \<Rightarrow> bool" where
  "inherited_property k =
     (k \<in> set (map lit [''constructor'', ''__proto__'', ''hasOwnProperty'', ''isPrototypeOf'',
        ''propertyIsEnumerable'', ''toLocaleString'', ''toString'', ''valueOf'',
        ''__defineGetter__'', ''__defineSetter__'', ''__lookupGetter__'',
        ''__lookupSetter__'']))"

definition chat_request_body :: "proxy_body \<Rightarrow> jsval" where
  "chat_request_body b =
     JObj [(lit ''model'', body_model b), (lit ''messages'', body_messages b)]"

definition handler ::
  "js_builtins \<Rightarrow> (fetch_request \<Rightarrow> fetch_outcome) \<Rightarrow> proxy_request \<Rightarrow> proxy_result" where
  "handler env net req =
     (if req_method req = lit ''OPTIONS'' then reply 200 EndNoBody
      else if req_method req \<noteq> lit ''POST'' then reply 405 MethodNotAllowed
      else case req_body req of
        None \<Rightarrow> reply 500 (InternalError TypeError)
      | Some b \<Rightarrow>
          if \<not> truthy (body_apiKey b) then reply 400 MissingApiKey
          else if body_action b = JStr (lit ''fetchModels'')
                  \<or> body_action b = JStr (lit ''testConnection'')
          then
            (if body_platform b \<noteq> JStr (lit ''custom-openai'')
                  \<or> \<not> truthy (body_apiUrl b)
             then reply 400 ModelsNeedCustomOpenAI
             else forwardRequest env net b
                    (Some (interp env (body_apiUrl b) @ lit ''/models''))
                    (Some (JObj [])) ''GET'')
          else if \<not> truthy (body_model b) \<or> \<not> truthy (body_messages b)
          then reply 400 MissingModelOrMessages
          else if body_platform b = JStr (lit ''custom-openai'') then
            (if \<not> truthy (body_apiUrl b) then reply 400 MissingApiUrl
             else forwardRequest env net b
                    (Some (interp env (body_apiUrl b) @ lit ''/chat/completions''))
                    (Some (chat_request_body b)) ''POST'')
          else
            (case platform_url (interp env (body_platform b)) of
               Some url \<Rightarrow> forwardRequest env net b (Some url) (Some (chat_request_body b)) ''POST''
             | None \<Rightarrow>
                 if inherited_property (interp env (body_platform b))
                 then forwardRequest env net b None None ''POST''
                 else reply 400 UnsupportedPlatform))"

text \<open>A silent network and trivial built-ins, for evaluating the handlers on examples.\<close>

definition plain_builtins :: js_builtins where
  "plain_builtins =
     \<lparr>json_parse = (\<lambda>s. Inl (lit ''Unexpected token'')),
      json_stringify = (\<lambda>v. lit ''{}''),
      to_string = (\<lambda>v. lit ''[object Object]''),
      type_error_text = lit ''Cannot read properties''\<rparr>"

definition offline :: "fetch_request \<Rightarrow> fetch_outcome" where
  "offline rq = FetchThrows (lit ''fetch failed'')"

definition empty_body :: proxy_body where
  "empty_body =
     \<lparr>body_platform = JUndefined, body_apiKey = JUndefined, body_model = JUndefined,
      body_messages = JUndefined, body_apiUrl = JUndefined, body_action = JUndefined\<rparr>"

section \<open>Characters (table \<open>characters\<close>)\<close>

text \<open>
  The columns of a row of \<open>characters\<close> that the modelled routes read. A nullable TEXT
  column is an option; \<open>is_group\<close> (INTEGER 0 or 1) is a boolean.
\<close>

record character =
  char_id :: jsstring
  name :: jsstring
  avatar :: "jsstring option"
  relationship :: "jsstring option"
  is_group :: bool
  reply_mode :: "jsstring option"
  reply_strategy :: "jsstring option"

text \<open>\<open>v || d\<close> on a nullable string: \<open>null\<close> and the empty string give the default.\<close>

definition or_default :: "jsstring option \<Rightarrow> jsstring \<Rightarrow> jsstring" where
  "or_default v d = (case v of None \<Rightarrow> d | Some s \<Rightarrow> if s = [] then d else s)"

section \<open>Proactive trigger: POST /api/trigger-message (server.ts, lines 721-776)\<close>

text \<open>
  Times are in milliseconds, as \<open>Date.now()\<close> and \<open>getTime()\<close> give them. The built-in
  \<open>String.prototype.toLowerCase\<close> is a parameter of the definitions that use it.
\<close>

definition strategy_of :: "character \<Rightarrow> jsstring" where
  "strategy_of c = or_default (reply_strategy c) (lit ''normal'')"

definition requiredInterval :: "(jsstring \<Rightarrow> jsstring) \<Rightarrow> character \<Rightarrow> int" where
  "requiredInterval toLowerCase c =
     (if strategy_of c = lit ''active'' then 10 * 1000
      else if strategy_of c = lit ''passive'' then 600 * 1000
      else
        (let rel = toLowerCase (or_default (relationship c) [])
         in if js_includes rel (lit ''lover'') \<or> js_includes rel (lit ''partner'')
               \<or> js_includes rel (lit ''wife'') \<or> js_includes rel (lit ''husband'')
            then 30 * 1000
            else if js_includes rel (lit ''stranger'') then 300 * 1000
            else 60 * 1000))"

text \<open>
  \<open>let chance = 0.5; if (strategy === 'active') chance = 0.8;
  if (strategy === 'passive') chance = 0.2;\<close>
\<close>

definition chance :: "character \<Rightarrow> real" where
  "chance c =
     (if strategy_of c = lit ''passive'' then 0.2
      else if strategy_of c = lit ''active'' then 0.8
      else 0.5)"

text \<open>
  What the loop observes while it processes one candidate: the timestamp of the last
  message of that character's chat (\<open>None\<close> when the query finds no message), the value
  of \<open>Date.now()\<close>, and the value \<open>Math.random()\<close> returns if it is drawn.
\<close>

record probe =
  lastTime :: "int option"
  now :: int
  random :: real

text \<open>
  The loop over the shuffled candidates. It returns the selected character, if any,
  and the candidates it has examined, in order.
\<close>

fun select_char ::
  "(jsstring \<Rightarrow> jsstring) \<Rightarrow> (character \<Rightarrow> probe) \<Rightarrow> character list \<Rightarrow>
   character option \<times> character list" where
  "select_char toLowerCase obs [] = (None, [])"
| "select_char toLowerCase obs (c # rest) =
     (case lastTime (obs c) of
        None \<Rightarrow> (Some c, [c])
      | Some lt \<Rightarrow>
          if now (obs c) - lt > requiredInterval toLowerCase c \<and> random (obs c) < chance c
          then (Some c, [c])
          else (case select_char toLowerCase obs rest of (sel, seen) \<Rightarrow> (sel, c # seen)))"

text \<open>
  The candidates: \<open>WHERE is_group = 0 AND (reply_strategy IS NULL OR reply_strategy !=
  'manual')\<close>, then shuffled. The order the random comparator leaves is a parameter.
\<close>

definition eligible :: "character \<Rightarrow> bool" where
  "eligible c = (\<not> is_group c \<and> reply_strategy c \<noteq> Some (lit ''manual''))"

definition trigger_select ::
  "(jsstring \<Rightarrow> jsstring) \<Rightarrow> (character list \<Rightarrow> character list) \<Rightarrow> (character \<Rightarrow> probe) \<Rightarrow>
   character list \<Rightarrow> character option" where
  "trigger_select toLowerCase shuffle obs chars =
     fst (select_char toLowerCase obs (shuffle (filter eligible chars)))"

section \<open>Responder resolution: POST /api/chat (server.ts, lines 377-421)\<close>

text \<open>
  \<open>for (const member of members) if (content.includes(`@${member.name}`))
  responders.push(member)\<close>
\<close>

fun push_mentioned :: "jsstring \<Rightarrow> character list \<Rightarrow> character list \<Rightarrow> character list" where
  "push_mentioned content [] responders = responders"
| "push_mentioned content (member # members) responders =
     push_mentioned content members
       (if js_includes content (lit ''@'' @ name member) then responders @ [member]
        else responders)"

text \<open>
  In natural mode with nobody mentioned, \<open>shuffled\<close> is the member list as the random
  sort leaves it and \<open>r\<close> the value of \<open>Math.random()\<close> that fixes the count.
\<close>

definition resolve_responders ::
  "character list \<Rightarrow> real \<Rightarrow> character \<Rightarrow> character list \<Rightarrow> jsstring \<Rightarrow> character list" where
  "resolve_responders shuffled r chatEntity members content =
     (if is_group chatEntity then
        (if length members > 0 then
           (let replyMode = or_default (reply_mode chatEntity) (lit ''natural'')
            in if replyMode = lit ''all'' then members
               else if replyMode = lit ''mentioned'' then push_mentioned content members []
               else
                 (let responders = push_mentioned content members []
                  in if length responders = 0
                     then take (nat \<lfloor>r * 2\<rfloor> + 1) shuffled
                     else responders))
         else [])
      else (if reply_strategy chatEntity \<noteq> Some (lit ''manual'') then [chatEntity] else []))"

section \<open>Settings store: POST /api/settings (server.ts, lines 185-208)\<close>

text \<open>
  The settings as the chat route reads them into an object: key to string value.
\<close>

type_synonym settings_table = "jsstring \<rightharpoonup> jsstring"

text \<open>
  The table \<open>settings (key TEXT PRIMARY KEY, value TEXT)\<close> is a map from key to stored
  value, which is a text or NULL. The statement \<open>INSERT OR REPLACE INTO settings (key,
  value) VALUES (?, ?)\<close> run on \<open>(k, v)\<close> stores \<open>v\<close> under \<open>k\<close>, replacing the row of that
  key if there is one. A field of the request body is any JSON value, or \<open>JUndefined\<close>
  when the body lacks it.
\<close>

datatype sql_value = SqlNull | SqlText jsstring

type_synonym settings_rows = "jsstring \<rightharpoonup> sql_value"

record settings_body =
  chat_api_url :: jsval
  chat_api_key :: jsval
  chat_model :: jsval
  vision_api_url :: jsval
  vision_api_key :: jsval
  vision_model :: jsval
  image_api_url :: jsval
  image_api_key :: jsval
  image_model :: jsval
  user_name :: jsval
  user_gender :: jsval
  user_bio :: jsval
  user_avatar :: jsval
  user_background :: jsval

text \<open>
  What \<open>stmt.run\<close> stores for a bound value, or the error it throws. A string is stored
  as it is and \<open>null\<close> as NULL. What the database library does with a number (stored in
  its text form), a boolean, an array or an object is the parameter \<open>bind_other\<close>.
\<close>

definition stmt_bind :: "(jsval \<Rightarrow> js_error + sql_value) \<Rightarrow> jsval \<Rightarrow> js_error + sql_value" where
  "stmt_bind bind_other v =
     (case v of
        JStr s \<Rightarrow> Inr (SqlText s)
      | JNull \<Rightarrow> Inr SqlNull
      | _ \<Rightarrow> bind_other v)"

text \<open>
  \<open>if (field !== undefined) stmt.run(key, field)\<close>. The state is the table and the
  exception thrown so far, if any: once a statement has thrown, the handler is left
  and the statements after it do not run.
\<close>

definition run_if_defined ::
  "(jsval \<Rightarrow> js_error + sql_value) \<Rightarrow> string \<Rightarrow> jsval \<Rightarrow> settings_rows \<times> js_error option \<Rightarrow>
   settings_rows \<times> js_error option" where
  "run_if_defined bind_other key field st =
     (case snd st of
        Some e \<Rightarrow> st
      | None \<Rightarrow>
          if field = JUndefined then st
          else (case stmt_bind bind_other field of
                  Inl e \<Rightarrow> (fst st, Some e)
                | Inr v \<Rightarrow> ((fst st)(lit key \<mapsto> v), None)))"

text \<open>
  The route: the table afterwards and the status of the answer, 200 with
  \<open>{success: true}\<close>, or 500 when a statement has thrown.
\<close>

definition post_settings ::
  "(jsval \<Rightarrow> js_error + sql_value) \<Rightarrow> settings_body \<Rightarrow> settings_rows \<Rightarrow> settings_rows \<times> nat" where
  "post_settings bind_other b t0 =
    (let st = (t0, None);
         st = run_if_defined bind_other ''chat_api_url'' (chat_api_url b) st;
         st = run_if_defined bind_other ''chat_api_key'' (chat_api_key b) st;
         st = run_if_defined bind_other ''chat_model'' (chat_model b) st;
         st = run_if_defined bind_other ''vision_api_url'' (vision_api_url b) st;
         st = run_if_defined bind_other ''vision_api_key'' (vision_api_key b) st;
         st = run_if_defined bind_other ''vision_model'' (vision_model b) st;
         st = run_if_defined bind_other ''image_api_url'' (image_api_url b) st;
         st = run_if_defined bind_other ''image_api_key'' (image_api_key b) st;
         st = run_if_defined bind_other ''image_model'' (image_model b) st;
         st = run_if_defined bind_other ''user_name'' (user_name b) st;
         st = run_if_defined bind_other ''user_gender'' (user_gender b) st;
         st = run_if_defined bind_other ''user_bio'' (user_bio b) st;
         st = run_if_defined bind_other ''user_avatar'' (user_avatar b) st;
         st = run_if_defined bind_other ''user_background'' (user_background b) st
     in (fst st, if snd st = None then 200 else 500))"

text \<open>
  The correspondence between a settings key and the body field of the same name, in
  the order of the statements, used to state which keys a request names; \<open>body_field\<close> is
  the field that corresponds to a key (\<open>JUndefined\<close> for a key that is none of the
  fourteen).
\<close>

definition settings_fields :: "(string \<times> (settings_body \<Rightarrow> jsval)) list" where
  "settings_fields =
    [(''chat_api_url'', chat_api_url), (''chat_api_key'', chat_api_key),
     (''chat_model'', chat_model),
     (''vision_api_url'', vision_api_url), (''vision_api_key'', vision_api_key),
     (''vision_model'', vision_model),
     (''image_api_url'', image_api_url), (''image_api_key'', image_api_key),
     (''image_model'', image_model),
     (''user_name'', user_name), (''user_gender'', user_gender), (''user_bio'', user_bio),
     (''user_avatar'', user_avatar), (''user_background'', user_background)]"

definition field_of ::
  "(string \<times> (settings_body \<Rightarrow> jsval)) list \<Rightarrow> settings_body \<Rightarrow> jsstring \<Rightarrow> jsval" where
  "field_of fs b k =
     (case map_of (map (\<lambda>(n, f). (lit n, f)) fs) k of
        None \<Rightarrow> JUndefined | Some f \<Rightarrow> f b)"

definition body_field :: "settings_body \<Rightarrow> jsstring \<Rightarrow> jsval" where
  "body_field b k = field_of settings_fields b k"

text \<open>A field that lets its statement run: it is undefined, or its value can be bound.\<close>

definition bindable :: "(jsval \<Rightarrow> js_error + sql_value) \<Rightarrow> jsval \<Rightarrow> bool" where
  "bindable bind_other v = (v = JUndefined \<or> (\<exists>x. stmt_bind bind_other v = Inr x))"

text \<open>Example data: a body with every field undefined, and a library that refuses
  every value other than a string and \<open>null\<close>.\<close>

definition no_settings :: settings_body where
  "no_settings =
     \<lparr>chat_api_url = JUndefined, chat_api_key = JUndefined, chat_model = JUndefined,
      vision_api_url = JUndefined, vision_api_key = JUndefined, vision_model = JUndefined,
      image_api_url = JUndefined, image_api_key = JUndefined, image_model = JUndefined,
      user_name = JUndefined, user_gender = JUndefined, user_bio = JUndefined,
      user_avatar = JUndefined, user_background = JUndefined\<rparr>"

definition refusing_bind :: "jsval \<Rightarrow> js_error + sql_value" where
  "refusing_bind v = Inl TypeError"

text \<open>
  Example requests: one that sets the chat model and clears the user name, one whose
  second field is a boolean, and one whose first field is a boolean; and a table with
  two rows.
\<close>

definition example_settings :: settings_body where
  "example_settings =
     no_settings\<lparr>chat_model := JStr (lit ''gpt-4o''), user_name := JNull\<rparr>"

definition boolean_settings :: settings_body where
  "boolean_settings =
     no_settings\<lparr>chat_api_url := JStr (lit ''https://api''), chat_api_key := JBool True,
                 chat_model := JStr (lit ''gpt-4o'')\<rparr>"

definition boolean_first_settings :: settings_body where
  "boolean_first_settings =
     no_settings\<lparr>chat_api_url := JBool True, chat_api_key := JStr (lit ''sk-1'')\<rparr>"

definition stored_settings :: settings_rows where
  "stored_settings = [lit ''chat_model'' \<mapsto> SqlText (lit ''old''),
                      lit ''user_bio'' \<mapsto> SqlText (lit ''bio'')]"

section \<open>Proactive trigger: the test of one candidate\<close>

text \<open>
  The test of one iteration (lines 753-773): the candidate is selected when it has no
  message at all, or when it has been quiet for longer than its interval and the draw
  is below its chance.
\<close>

definition passes ::
  "(jsstring \<Rightarrow> jsstring) \<Rightarrow> (character \<Rightarrow> probe) \<Rightarrow> character \<Rightarrow> bool" where
  "passes toLowerCase obs c =
     (case lastTime (obs c) of
        None \<Rightarrow> True
      | Some lt \<Rightarrow>
          now (obs c) - lt > requiredInterval toLowerCase c \<and> random (obs c) < chance c)"

section \<open>Example data\<close>

text \<open>
  Lower-casing of the Latin capital letters; \<open>String.prototype.toLowerCase\<close> agrees with
  it on every string of ASCII code units.
\<close>

definition ascii_lower :: "jsstring \<Rightarrow> jsstring" where
  "ascii_lower s = map (\<lambda>c. if 65 \<le> c \<and> c \<le> 90 then c + 32 else c) s"

definition club :: character where
  "club = \<lparr>char_id = lit ''g1'', name = lit ''Club'', avatar = None, relationship = None,
     is_group = True, reply_mode = Some (lit ''mentioned''), reply_strategy = None\<rparr>"

definition alice :: character where
  "alice = \<lparr>char_id = lit ''c1'', name = lit ''Alice'', avatar = None,
     relationship = Some (lit ''Friend''), is_group = False, reply_mode = None,
     reply_strategy = Some (lit ''normal'')\<rparr>"

definition bob :: character where
  "bob = \<lparr>char_id = lit ''c2'', name = lit ''Bob'', avatar = None,
     relationship = Some (lit ''My Lover''), is_group = False, reply_mode = None,
     reply_strategy = Some (lit ''normal'')\<rparr>"

definition carol :: character where
  "carol = \<lparr>char_id = lit ''c3'', name = lit ''Carol'', avatar = None,
     relationship = Some (lit ''Friend''), is_group = False, reply_mode = None,
     reply_strategy = Some (lit ''active'')\<rparr>"

text \<open>
  A tick at time 1000000: Alice spoke 5 seconds ago, Bob 40 seconds ago, Carol never.
\<close>

definition tick :: "character \<Rightarrow> probe" where
  "tick c =
     (if c = alice then \<lparr>lastTime = Some 995000, now = 1000000, random = 0.1\<rparr>
      else if c = bob then \<lparr>lastTime = Some 960000, now = 1000000, random = 0.3\<rparr>
      else \<lparr>lastTime = None, now = 1000000, random = 0.9\<rparr>)"

section \<open>The OpenAI-compatible adapters (server.ts, lines 13-49 and 94-148)\<close>

text \<open>\<open>baseURL.replace(/\/+$/, '')\<close>: the slashes at the end of the string are removed.\<close>

definition strip_trailing_slashes :: "jsstring \<Rightarrow> jsstring" where
  "strip_trailing_slashes s = rev (dropWhile (\<lambda>c. c = 47) (rev s))"

text \<open>\<open>e.message\<close> of a caught error.\<close>

definition message_of :: "js_builtins \<Rightarrow> js_error \<Rightarrow> jsstring" where
  "message_of env e =
     (case e of Error m \<Rightarrow> m | SyntaxError m \<Rightarrow> m | TypeError \<Rightarrow> type_error_text env)"

text \<open>
  Lines 32-40: the message taken from an error body. Any exception inside the \<open>try\<close>
  leaves the raw text in place.
\<close>

definition openai_error_message :: "js_builtins \<Rightarrow> jsstring \<Rightarrow> jsval" where
  "openai_error_message env errText =
     (case json_parse env errText of
        Inl m \<Rightarrow> JStr errText
      | Inr errJson \<Rightarrow>
          (case get_prop errJson ''error'' of
             Inl e \<Rightarrow> JStr errText
           | Inr err \<Rightarrow>
               if truthy err then
                 (case get_prop err ''message'' of
                    Inl e \<Rightarrow> JStr errText
                  | Inr m \<Rightarrow> if truthy m then m else JStr (json_stringify env err))
               else
                 (case get_prop errJson ''message'' of
                    Inl e \<Rightarrow> JStr errText
                  | Inr m \<Rightarrow> if truthy m then m else JStr errText)))"

text \<open>The message of line 46; its Chinese part says "response format error: missing".\<close>

definition missing_choices :: jsstring where
  "missing_choices =
     lit ''API '' @ [21709, 24212, 26684, 24335, 38169, 35823] @ lit '': '' @ [32570, 23569]
       @ lit '' choices''"

text \<open>Lines 44-48: the content of a successful response.\<close>

definition openai_content :: "js_builtins \<Rightarrow> jsstring \<Rightarrow> js_error + jsval" where
  "openai_content env text =
     (case json_parse env text of
        Inl m \<Rightarrow> Inl (SyntaxError m)
      | Inr data \<Rightarrow>
          (case get_prop data ''choices'' of
             Inl e \<Rightarrow> Inl e
           | Inr choices \<Rightarrow>
               if \<not> truthy choices then Inl (Error missing_choices)
               else
                 (case get_index0 choices of
                    Inl e \<Rightarrow> Inl e
                  | Inr choice \<Rightarrow>
                      if \<not> truthy choice then Inl (Error missing_choices)
                      else
                        (case get_prop choice ''message'' of
                           Inl e \<Rightarrow> Inl e
                         | Inr msg \<Rightarrow> get_prop msg ''content''))))"

definition chat_completion_request ::
  "jsstring \<Rightarrow> jsstring \<Rightarrow> jsval \<Rightarrow> jsval \<Rightarrow> real \<Rightarrow> fetch_request" where
  "chat_completion_request apiKey baseURL model messages temperature =
     \<lparr>fr_url = strip_trailing_slashes baseURL @ lit ''/chat/completions'',
      fr_method = lit ''POST'',
      fr_authorization = lit ''Bearer '' @ apiKey,
      fr_body = Some (JObj [(lit ''model'', model), (lit ''messages'', messages),
                            (lit ''temperature'', JNum temperature)])\<rparr>"

definition generateWithOpenAI ::
  "js_builtins \<Rightarrow> (fetch_request \<Rightarrow> fetch_outcome) \<Rightarrow> jsstring \<Rightarrow> jsstring \<Rightarrow> jsval \<Rightarrow>
   jsval \<Rightarrow> real \<Rightarrow> js_error + jsval" where
  "generateWithOpenAI env net apiKey baseURL model messages temperature =
     (case net (chat_completion_request apiKey baseURL model messages temperature) of
        FetchThrows m \<Rightarrow> Inl (Error m)
      | FetchResponse response \<Rightarrow>
          if \<not> ok response then
            Inl (Error (lit ''[HTTP '' @ digits (status response) @ lit ''] ''
                   @ interp env (openai_error_message env (body_text response))))
          else openai_content env (body_text response))"

subsection \<open>Image generation (lines 94-148)\<close>

definition image_bodies :: "jsstring \<Rightarrow> jsstring \<Rightarrow> jsval list" where
  "image_bodies model prompt =
     [JObj [(lit ''model'', JStr model), (lit ''prompt'', JStr prompt), (lit ''n'', JNum 1),
            (lit ''size'', JStr (lit ''1024x1024'')),
            (lit ''response_format'', JStr (lit ''b64_json''))],
      JObj [(lit ''model'', JStr model), (lit ''prompt'', JStr prompt), (lit ''n'', JNum 1),
            (lit ''response_format'', JStr (lit ''b64_json''))],
      JObj [(lit ''model'', JStr model), (lit ''prompt'', JStr prompt), (lit ''n'', JNum 1)]]"

definition image_request :: "jsstring \<Rightarrow> jsstring \<Rightarrow> jsval \<Rightarrow> fetch_request" where
  "image_request apiKey baseURL body =
     \<lparr>fr_url = strip_trailing_slashes baseURL @ lit ''/images/generations'',
      fr_method = lit ''POST'',
      fr_authorization = lit ''Bearer '' @ apiKey,
      fr_body = Some body\<rparr>"

text \<open>
  Lines 119-124: what a successful response carries. \<open>Inl\<close> when reading it throws,
  \<open>Inr None\<close> when it has no image, \<open>Inr (Some v)\<close> for the value the function returns.
\<close>

definition read_image :: "js_builtins \<Rightarrow> http_response \<Rightarrow> js_error + jsval option" where
  "read_image env response =
     (case json_parse env (body_text response) of
        Inl m \<Rightarrow> Inl (SyntaxError m)
      | Inr data \<Rightarrow>
          (case get_prop data ''data'' of
             Inl e \<Rightarrow> Inl e
           | Inr d \<Rightarrow>
               if \<not> truthy d then Inr None
               else
                 (case get_index0 d of
                    Inl e \<Rightarrow> Inl e
                  | Inr imageData \<Rightarrow>
                      if \<not> truthy imageData then Inr None
                      else
                        (case get_prop imageData ''b64_json'' of
                           Inl e \<Rightarrow> Inl e
                         | Inr b64 \<Rightarrow>
                             if truthy b64
                             then Inr (Some (JStr (lit ''data:image/png;base64,'' @ interp env b64)))
                             else
                               (case get_prop imageData ''url'' of
                                  Inl e \<Rightarrow> Inl e
                                | Inr u \<Rightarrow> if truthy u then Inr (Some u) else Inr None)))))"

text \<open>\<open>lastError\<close> (\<open>null\<close> or a string) and \<open>lastStatus\<close>.\<close>

record image_state =
  lastError :: "jsstring option"
  lastStatus :: nat

datatype image_step = Return jsval | Break image_state | Continue image_state

text \<open>One pass through the body of the loop (lines 108-133), given the outcome of \<open>fetch\<close>.\<close>

definition image_attempt :: "js_builtins \<Rightarrow> fetch_outcome \<Rightarrow> image_state \<Rightarrow> image_step" where
  "image_attempt env outcome st =
     (case outcome of
        FetchThrows m \<Rightarrow> Continue (st\<lparr>lastError := Some m\<rparr>)
      | FetchResponse response \<Rightarrow>
          if ok response then
            (case read_image env response of
               Inl e \<Rightarrow> Continue (st\<lparr>lastError := Some (message_of env e)\<rparr>)
             | Inr None \<Rightarrow> Continue st
             | Inr (Some v) \<Rightarrow> Return v)
          else
            (let st' = \<lparr>lastError = Some (body_text response), lastStatus = status response\<rparr>
             in if status response = 401 \<or> status response = 404 then Break st'
                else Continue st'))"

text \<open>
  The loop over the bodies. It returns the image (\<open>Inl\<close>) or the state it ends in
  (\<open>Inr\<close>), and the requests it has sent, in order.
\<close>

fun image_loop ::
  "js_builtins \<Rightarrow> (fetch_request \<Rightarrow> fetch_outcome) \<Rightarrow> (jsval \<Rightarrow> fetch_request) \<Rightarrow> jsval list \<Rightarrow>
   image_state \<Rightarrow> fetch_request list \<Rightarrow> (jsval + image_state) \<times> fetch_request list" where
  "image_loop env net mk [] st sent = (Inr st, sent)"
| "image_loop env net mk (body # bodies) st sent =
     (case image_attempt env (net (mk body)) st of
        Return v \<Rightarrow> (Inl v, sent @ [mk body])
      | Break st' \<Rightarrow> (Inr st', sent @ [mk body])
      | Continue st' \<Rightarrow> image_loop env net mk bodies st' (sent @ [mk body]))"

text \<open>The two Chinese texts of lines 136 and 142: "unknown error", and the hint.\<close>

definition unknown_error :: jsstring where
  "unknown_error = [26410, 30693, 38169, 35823]"

definition bad_response_hint :: "jsstring \<Rightarrow> jsstring" where
  "bad_response_hint model =
     [19978, 28216, 26381, 21153, 22120, 38169, 35823] @ lit '' (Bad Response). ''
     @ [35831, 30830, 20445, 27169, 22411, 21517, 31216, 32, 34] @ model
     @ [34, 32, 27491, 30830, 65292, 19988] @ lit '' API Key ''
     @ [20313, 39069, 20805, 36275, 24182, 25903, 25345, 29983, 22270, 12290]"

text \<open>
  \<open>errorMessage.includes('openai_error')\<close>: on a string the substring test, on an array
  the membership test; on any other value the call throws, which leaves \<open>errorMessage\<close>
  as it is.
\<close>

definition mentions_openai_error :: "jsval \<Rightarrow> bool" where
  "mentions_openai_error v =
     (case v of
        JStr s \<Rightarrow> js_includes s (lit ''openai_error'')
      | JArr vs \<Rightarrow> JStr (lit ''openai_error'') \<in> set vs
      | _ \<Rightarrow> False)"

text \<open>Lines 136-145: the message of the error raised after the loop.\<close>

definition image_error_message :: "js_builtins \<Rightarrow> jsstring \<Rightarrow> image_state \<Rightarrow> jsval" where
  "image_error_message env model st =
     (case lastError st of
        None \<Rightarrow> JStr unknown_error
      | Some le \<Rightarrow>
          (let errorMessage = JStr (if le = [] then unknown_error else le)
           in case json_parse env le of
                Inl m \<Rightarrow> errorMessage
              | Inr errJson \<Rightarrow>
                  (case get_prop errJson ''error'' of
                     Inl e \<Rightarrow> errorMessage
                   | Inr err \<Rightarrow>
                       if \<not> truthy err then errorMessage
                       else
                         (case (get_prop err ''message'', get_prop err ''code'') of
                            (Inr m, Inr code) \<Rightarrow>
                              (let errorMessage' =
                                     (if truthy m then m else JStr (json_stringify env err))
                               in if code = JStr (lit ''bad_response_status_code'')
                                      \<or> mentions_openai_error errorMessage'
                                  then JStr (bad_response_hint model)
                                  else errorMessage')
                          | _ \<Rightarrow> errorMessage))))"

definition generateImageWithOpenAI ::
  "js_builtins \<Rightarrow> (fetch_request \<Rightarrow> fetch_outcome) \<Rightarrow> jsstring \<Rightarrow> jsstring \<Rightarrow> jsstring \<Rightarrow>
   jsstring \<Rightarrow> (js_error + jsval) \<times> fetch_request list" where
  "generateImageWithOpenAI env net apiKey baseURL model prompt =
     (case image_loop env net (image_request apiKey baseURL) (image_bodies model prompt)
             \<lparr>lastError = None, lastStatus = 0\<rparr> [] of
        (Inl v, sent) \<Rightarrow> (Inr v, sent)
      | (Inr st, sent) \<Rightarrow>
          (Inl (Error (lit ''[HTTP '' @ digits (lastStatus st) @ lit ''] ''
                  @ interp env (image_error_message env model st))), sent))"

text \<open>
  An attempt after which the loop goes on to the next body: \<open>fetch\<close> threw, or the
  response was a failure other than 401 and 404, or it was a success that carries no
  image. The state it leaves is \<open>soft_update\<close>.
\<close>

definition soft_failure :: "js_builtins \<Rightarrow> fetch_outcome \<Rightarrow> bool" where
  "soft_failure env outcome =
     (case outcome of
        FetchThrows m \<Rightarrow> True
      | FetchResponse response \<Rightarrow>
          if ok response then (case read_image env response of Inr (Some v) \<Rightarrow> False | _ \<Rightarrow> True)
          else status response \<noteq> 401 \<and> status response \<noteq> 404)"

definition soft_update :: "js_builtins \<Rightarrow> image_state \<Rightarrow> fetch_outcome \<Rightarrow> image_state" where
  "soft_update env st outcome =
     (case image_attempt env outcome st of Continue st' \<Rightarrow> st' | _ \<Rightarrow> st)"

text \<open>
  The statuses of the failure responses among the outcomes, in order; the last of them
  is the last HTTP status of a run (0 when there is none).
\<close>

definition failure_statuses :: "fetch_outcome list \<Rightarrow> nat list" where
  "failure_statuses outcomes =
     concat (map (\<lambda>outcome. case outcome of
                    FetchThrows m \<Rightarrow> []
                  | FetchResponse response \<Rightarrow> if ok response then [] else [status response])
             outcomes)"

text \<open>
  The messages that the attempts assign to \<open>lastError\<close>, in order: the message of a
  thrown \<open>fetch\<close>, the body of a failure response, the message of the error thrown while
  a success response is read; a success that is read without error assigns none.
\<close>

definition failure_messages :: "js_builtins \<Rightarrow> fetch_outcome list \<Rightarrow> jsstring list" where
  "failure_messages env outcomes =
     concat (map (\<lambda>outcome. case outcome of
                    FetchThrows m \<Rightarrow> [m]
                  | FetchResponse response \<Rightarrow>
                      if ok response
                      then (case read_image env response of
                              Inl e \<Rightarrow> [message_of env e] | Inr v \<Rightarrow> [])
                      else [body_text response])
             outcomes)"

text \<open>A network that answers by the \<open>size\<close> and \<open>response_format\<close> of the body it is sent.\<close>

definition answering_variants ::
  "fetch_outcome \<Rightarrow> fetch_outcome \<Rightarrow> fetch_outcome \<Rightarrow> fetch_request \<Rightarrow> fetch_outcome" where
  "answering_variants o1 o2 o3 rq =
     (case fr_body rq of
        Some (JObj kvs) \<Rightarrow>
          if map_of kvs (lit ''size'') \<noteq> None then o1
          else if map_of kvs (lit ''response_format'') \<noteq> None then o2
          else o3
      | _ \<Rightarrow> o3)"

text \<open>
  Example bodies and a \<open>JSON.parse\<close> that knows them (any other text is rejected), for
  evaluating the adapters.
\<close>

definition body_empty_content :: jsstring where
  \<open>body_empty_content = lit ''{"choices":[{"message":{"content":""}}]}''\<close>

definition body_hello :: jsstring where
  \<open>body_hello = lit ''{"choices":[{"message":{"content":"hello"}}]}''\<close>

definition body_not_found :: jsstring where
  \<open>body_not_found = lit ''{"error":{"message":"model not found"}}''\<close>

definition body_error_code :: jsstring where
  \<open>body_error_code = lit ''{"error":{"code":7},"message":"quota"}''\<close>

definition body_no_image :: jsstring where
  \<open>body_no_image = lit ''{"data":[]}''\<close>

definition body_image_both :: jsstring where
  \<open>body_image_both = lit ''{"data":[{"b64_json":"QUJD","url":"https://img.example/1.png"}]}''\<close>

definition example_parse :: "jsstring \<Rightarrow> jsstring + jsval" where
  "example_parse s =
     (if s = body_empty_content then
        Inr (JObj [(lit ''choices'',
               JArr [JObj [(lit ''message'', JObj [(lit ''content'', JStr [])])]])])
      else if s = body_hello then
        Inr (JObj [(lit ''choices'',
               JArr [JObj [(lit ''message'', JObj [(lit ''content'', JStr (lit ''hello''))])]])])
      else if s = body_not_found then
        Inr (JObj [(lit ''error'', JObj [(lit ''message'', JStr (lit ''model not found''))])])
      else if s = body_error_code then
        Inr (JObj [(lit ''error'', JObj [(lit ''code'', JNum 7)]),
                   (lit ''message'', JStr (lit ''quota''))])
      else if s = body_no_image then Inr (JObj [(lit ''data'', JArr [])])
      else if s = body_image_both then
        Inr (JObj [(lit ''data'',
               JArr [JObj [(lit ''b64_json'', JStr (lit ''QUJD'')),
                           (lit ''url'', JStr (lit ''https://img.example/1.png''))]])])
      else Inl (lit ''Unexpected token''))"

definition example_stringify :: "jsval \<Rightarrow> jsstring" where
  \<open>example_stringify v =
     (if v = JObj [(lit ''code'', JNum 7)] then lit ''{"code":7}'' else lit ''{}'')\<close>

definition example_builtins :: js_builtins where
  "example_builtins =
     \<lparr>json_parse = example_parse, json_stringify = example_stringify,
      to_string = (\<lambda>v. lit ''[object Object]''),
      type_error_text = lit ''Cannot read properties''\<rparr>"

text \<open>A payload with a hosted URL only, and built-ins whose \<open>JSON.parse\<close> knows it too.\<close>

definition body_image_url :: jsstring where
  \<open>body_image_url = lit ''{"data":[{"url":"https://img.example/2.png"}]}''\<close>

definition image_builtins :: js_builtins where
  "image_builtins =
     example_builtins\<lparr>json_parse :=
       (\<lambda>s. if s = body_image_url
            then Inr (JObj [(lit ''data'',
                   JArr [JObj [(lit ''url'', JStr (lit ''https://img.example/2.png''))]])])
            else example_parse s)\<rparr>"

text \<open>A network that answers every request with the same response.\<close>

definition answering :: "nat \<Rightarrow> jsstring \<Rightarrow> fetch_request \<Rightarrow> fetch_outcome" where
  "answering st body rq = FetchResponse \<lparr>status = st, body_text = body\<rparr>"

section \<open>Response parsing: POST /api/chat (server.ts, lines 584-708)\<close>

text \<open>
  White space as \<open>trim()\<close> and the pattern \<open>\s\<close> know it (tab, line feed, vertical tab,
  form feed, carriage return, space, no-break space, the Unicode space separators, the
  line and paragraph separators, the byte order mark), and the line terminators, which
  the pattern \<open>.\<close> does not match.
\<close>

definition js_space :: "nat \<Rightarrow> bool" where
  "js_space c =
     (c \<in> set [9, 10, 11, 12, 13, 32, 160, 5760, 8232, 8233, 8239, 8287, 12288, 65279]
      \<or> (8192 \<le> c \<and> c \<le> 8202))"

definition line_terminator :: "nat \<Rightarrow> bool" where
  "line_terminator c = (c \<in> set [10, 13, 8232, 8233])"

definition js_trim :: "jsstring \<Rightarrow> jsstring" where
  "js_trim s = rev (dropWhile js_space (rev (dropWhile js_space s)))"

text \<open>
  \<open>dialogue.split(/\[NEXT\]|\n\n+/)\<close>: the text is cut at every \<open>[NEXT]\<close> and at every run
  of two or more line feeds, scanning from the left; \<open>cur\<close> is the piece under way.
\<close>

definition NEXT :: jsstring where
  "NEXT = lit ''[NEXT]''"

function split_parts :: "jsstring \<Rightarrow> jsstring \<Rightarrow> jsstring list" where
  "split_parts cur [] = [cur]"
| "split_parts cur (c # s) =
     (if prefix NEXT (c # s) then cur # split_parts [] (drop (length NEXT) (c # s))
      else if prefix [10, 10] (c # s) then cur # split_parts [] (dropWhile (\<lambda>x. x = 10) (c # s))
      else split_parts (cur @ [c]) s)"
  by pat_completeness auto
termination
proof (relation "measure (\<lambda>(cur, s). length s)")
  show "wf (measure (\<lambda>(cur, s). length s))"
    by simp
next
  fix cur :: jsstring and c s
  assume "prefix NEXT (c # s)"
  then show "(([], drop (length NEXT) (c # s)), cur, c # s) \<in> measure (\<lambda>(cur, s). length s)"
    by (simp add: NEXT_def lit_def)
next
  fix cur :: jsstring and c s
  assume "\<not> prefix NEXT (c # s)" and "prefix [10, 10] (c # s)"
  then have "c = 10" by simp
  then have "length (dropWhile (\<lambda>x. x = 10) (c # s)) \<le> length s"
    by (simp add: length_dropWhile_le)
  then show "(([], dropWhile (\<lambda>x. x = 10) (c # s)), cur, c # s) \<in> measure (\<lambda>(cur, s). length s)"
    by simp
next
  fix cur :: jsstring and c s
  show "((cur @ [c], s), cur, c # s) \<in> measure (\<lambda>(cur, s). length s)"
    by simp
qed

text \<open>\<open>.filter(p => p.trim())\<close>\<close>

definition messageParts :: "jsstring \<Rightarrow> jsstring list" where
  "messageParts dialogue = filter (\<lambda>p. js_trim p \<noteq> []) (split_parts [] dialogue)"

text \<open>
  The tail of a directive after its opener, as \<open>(.*?)\]\<close> matches it: the units up to
  the first \<open>]\<close>, none of them a line terminator. The result is the captured text and
  what follows the \<open>]\<close>.
\<close>

definition directive_body :: "jsstring \<Rightarrow> (jsstring \<times> jsstring) option" where
  "directive_body s =
     (case dropWhile (\<lambda>c. c \<noteq> 93 \<and> \<not> line_terminator c) s of
        [] \<Rightarrow> None
      | c # rest \<Rightarrow>
          if c = 93 then Some (takeWhile (\<lambda>c. c \<noteq> 93 \<and> \<not> line_terminator c) s, rest)
          else None)"

text \<open>
  The leftmost match of \<open>opener(.*?)\]\<close> in a text (with \<open>skip\<close>, of \<open>opener\s*(.*?)\]\<close>):
  what precedes the match, the captured text, and what follows the match.
\<close>

fun find_directive ::
  "bool \<Rightarrow> jsstring \<Rightarrow> jsstring \<Rightarrow> (jsstring \<times> jsstring \<times> jsstring) option" where
  "find_directive skip opener [] = None"
| "find_directive skip opener (c # s) =
     (case (if prefix opener (c # s)
            then directive_body
                   ((if skip then dropWhile js_space else (\<lambda>t. t))
                      (drop (length opener) (c # s)))
            else None) of
        Some (captured, post) \<Rightarrow> Some ([], captured, post)
      | None \<Rightarrow>
          (case find_directive skip opener s of
             None \<Rightarrow> None
           | Some (pre, captured, post) \<Rightarrow> Some (c # pre, captured, post)))"

text \<open>The openers \<open>[sticker:\<close> and the image one, \<open>[\<close> U+751F U+56FE \<open>:\<close>.\<close>

definition sticker_opener :: jsstring where
  "sticker_opener = lit ''[sticker:''"

definition image_opener :: jsstring where
  "image_opener = [91, 29983, 22270, 58]"

text \<open>\<open>s.replace(/opener.*?\]/, '')\<close>: the first match is removed.\<close>

definition remove_directive :: "jsstring \<Rightarrow> jsstring \<Rightarrow> jsstring" where
  "remove_directive opener s =
     (case find_directive False opener s of
        None \<Rightarrow> s
      | Some (pre, captured, post) \<Rightarrow> pre @ post)"

text \<open>
  A row of \<open>stickers\<close>, and a message fragment as it is inserted into \<open>messages\<close> and
  pushed onto \<open>responses\<close> (without its \<open>id\<close>, a fresh random UUID). Timestamps are kept
  in milliseconds; the source stores their ISO rendering.
\<close>

record sticker =
  sticker_owner :: jsstring
  sticker_url :: jsstring

datatype message_type = TextMsg | ImageMsg | StickerMsg | NarrationMsg

record fragment =
  sender_id :: jsstring
  sender_name :: jsstring
  sender_avatar :: "jsstring option"
  msg_content :: jsstring
  msg_type :: message_type
  timestamp :: int

text \<open>
  What the parser works in: whether an image key is configured (\<open>settings.image_api_key ||
  process.env.GEMINI_API_KEY\<close>), the image generation call of lines 629-633 (an error, or
  the URL, \<open>None\<close> for \<open>null\<close>), the table \<open>stickers\<close> by id, the successive values of
  \<open>Date.now()\<close>, and the effect of the second \<open>replace\<close> of line 585, whose pattern is built
  from the responder's name (an error when the name is not a valid pattern). The
  insertions into \<open>messages\<close> are taken to succeed.
\<close>

record parse_env =
  image_key :: bool
  generate_image :: "jsstring \<Rightarrow> js_error + jsstring option"
  stickers :: "jsstring \<rightharpoonup> sticker"
  clock :: "nat \<Rightarrow> int"
  strip_name_echo :: "character \<Rightarrow> jsstring \<Rightarrow> js_error + jsstring"

definition fragment_of :: "character \<Rightarrow> jsstring \<Rightarrow> message_type \<Rightarrow> int \<Rightarrow> fragment" where
  "fragment_of responder c ty ts =
     \<lparr>sender_id = char_id responder, sender_name = name responder,
      sender_avatar = avatar responder, msg_content = c, msg_type = ty, timestamp = ts\<rparr>"

text \<open>
  Lines 622-639: the image directive of a part. The result is the generated URL (if
  any) and the text of the part afterwards.
\<close>

definition image_step :: "parse_env \<Rightarrow> jsstring \<Rightarrow> jsstring option \<times> jsstring" where
  "image_step env partText =
     (if js_includes partText image_opener then
        (case find_directive True image_opener partText of
           None \<Rightarrow> (None, partText)
         | Some (pre, prompt, post) \<Rightarrow>
             if image_key env then
               (case generate_image env prompt of
                  Inl e \<Rightarrow> (None, partText)
                | Inr u \<Rightarrow> (u, js_trim (remove_directive image_opener partText)))
             else (None, partText))
      else (None, partText))"

text \<open>Lines 641-653: the sticker directive of a part.\<close>

definition sticker_step :: "parse_env \<Rightarrow> jsstring \<Rightarrow> jsstring option \<times> jsstring" where
  "sticker_step env partText =
     (if js_includes partText sticker_opener then
        (case find_directive False sticker_opener partText of
           None \<Rightarrow> (None, partText)
         | Some (pre, stickerId, post) \<Rightarrow>
             (case stickers env stickerId of
                None \<Rightarrow> (None, partText)
              | Some st \<Rightarrow> (Some (sticker_url st), js_trim (remove_directive sticker_opener partText))))
      else (None, partText))"

text \<open>
  Lines 618-708: the loop over the parts. \<open>i\<close> is the index of the part and \<open>k\<close> the
  number of clock readings made so far; the result is the fragments emitted, and \<open>k\<close>
  afterwards.
\<close>

definition emit_part :: "parse_env \<Rightarrow> character \<Rightarrow> nat \<Rightarrow> nat \<Rightarrow> jsstring \<Rightarrow> fragment list \<times> nat" where
  "emit_part env responder i k part =
     (let partText = js_trim part in
      if partText = [] then ([], k)
      else
        (let (partGeneratedImageUrl, partText) = image_step env partText;
             (partStickerUrl, partText) = sticker_step env partText;
             (texts, k) =
               (if partText \<noteq> []
                then ([fragment_of responder partText TextMsg (clock env k + int i * 500)], Suc k)
                else ([], k));
             (images, k) =
               (case partGeneratedImageUrl of
                  None \<Rightarrow> ([], k)
                | Some u \<Rightarrow>
                    if u \<noteq> []
                    then ([fragment_of responder u ImageMsg (clock env k + int i * 500 + 100)],
                          Suc k)
                    else ([], k));
             (stickerMsgs, k) =
               (case partStickerUrl of
                  None \<Rightarrow> ([], k)
                | Some u \<Rightarrow>
                    if u \<noteq> []
                    then ([fragment_of responder u StickerMsg (clock env k + int i * 500 + 200)],
                          Suc k)
                    else ([], k))
         in (texts @ images @ stickerMsgs, k)))"

fun emit_parts ::
  "parse_env \<Rightarrow> character \<Rightarrow> nat \<Rightarrow> nat \<Rightarrow> jsstring list \<Rightarrow> fragment list \<times> nat" where
  "emit_parts env responder i k [] = ([], k)"
| "emit_parts env responder i k (part # parts) =
     (let (frs, k') = emit_part env responder i k part;
          (frs', k'') = emit_parts env responder (Suc i) k' parts
      in (frs @ frs', k''))"

text \<open>Lines 598-708: the dialogue, split and emitted.\<close>

definition parse_dialogue ::
  "parse_env \<Rightarrow> character \<Rightarrow> nat \<Rightarrow> jsstring \<Rightarrow> fragment list \<times> nat" where
  "parse_dialogue env responder k dialogue = emit_parts env responder 0 k (messageParts dialogue)"

text \<open>
  Line 585, first \<open>replace\<close> (\<open>/^\[.*?\]:?\s*/\<close>): a bracketed prefix, an optional colon
  and the white space after them are removed from the start of the text.
\<close>

definition strip_bracket_prefix :: "jsstring \<Rightarrow> jsstring" where
  "strip_bracket_prefix s =
     (case s of
        [] \<Rightarrow> s
      | c # t \<Rightarrow>
          if c = 91 then
            (case directive_body t of
               None \<Rightarrow> s
             | Some (inside, rest) \<Rightarrow>
                 dropWhile js_space (case rest of [] \<Rightarrow> [] | d # r \<Rightarrow> if d = 58 then r else d # r))
          else s)"

definition clean_text :: "parse_env \<Rightarrow> character \<Rightarrow> jsstring \<Rightarrow> js_error + jsstring" where
  "clean_text env responder s = strip_name_echo env responder (strip_bracket_prefix s)"

text \<open>The first occurrence of a separator: what precedes it and what follows it.\<close>

fun split_at :: "jsstring \<Rightarrow> jsstring \<Rightarrow> (jsstring \<times> jsstring) option" where
  "split_at sep [] = None"
| "split_at sep (c # s) =
     (if prefix sep (c # s) then Some ([], drop (length sep) (c # s))
      else (case split_at sep s of None \<Rightarrow> None | Some (a, b) \<Rightarrow> Some (c # a, b)))"

text \<open>
  Lines 588-595: in scenario mode a text with the delimiter \<open>|||\<close> is cut into the
  narration (\<open>parts[0]\<close>) and the dialogue (\<open>parts[1]\<close>, which ends at the next delimiter).
\<close>

definition scenario_split :: "jsval \<Rightarrow> jsstring \<Rightarrow> jsstring \<times> jsstring" where
  "scenario_split mode s =
     (if mode = JStr (lit ''scenario'') \<and> js_includes s (lit ''|||'') then
        (case split_at (lit ''|||'') s of
           None \<Rightarrow> ([], s)
         | Some (narration, rest) \<Rightarrow>
             (js_trim narration,
              js_trim (case split_at (lit ''|||'') rest of
                         None \<Rightarrow> rest
                       | Some (dialogue, others) \<Rightarrow> dialogue)))
      else ([], s))"

text \<open>
  Lines 584-708: from the text of the model to the fragments of one responder. \<open>k\<close> counts
  the clock readings.
\<close>

definition parse_reply ::
  "parse_env \<Rightarrow> character \<Rightarrow> jsval \<Rightarrow> nat \<Rightarrow> jsstring \<Rightarrow>
   js_error + fragment list \<times> nat" where
  "parse_reply env responder mode k raw =
     (case clean_text env responder raw of
        Inl e \<Rightarrow> Inl e
      | Inr cleaned \<Rightarrow>
          Inr (let (narration, dialogue) = scenario_split mode cleaned;
                   (narrations, k) =
                     (if narration \<noteq> []
                      then ([fragment_of responder narration NarrationMsg (clock env k - 500)],
                            Suc k)
                      else ([], k));
                   (frs, k) = parse_dialogue env responder k dialogue
               in (narrations @ frs, k)))"

text \<open>
  Example data for the parser: a sticker of Bob and one of the user, a clock that
  advances by one millisecond at each reading, no image provider, and the effect of the
  name pattern for a name without pattern characters (the name, an optional colon and
  white space are removed from the start).
\<close>

definition strip_literal_name :: "character \<Rightarrow> jsstring \<Rightarrow> js_error + jsstring" where
  "strip_literal_name responder s =
     Inr (if prefix (name responder) s then
            (case drop (length (name responder)) s of
               [] \<Rightarrow> []
             | c # rest \<Rightarrow> dropWhile js_space (if c = 58 then rest else c # rest))
          else s)"

definition example_stickers :: "jsstring \<rightharpoonup> sticker" where
  "example_stickers =
     map_of
       [(lit ''s1'', \<lparr>sticker_owner = lit ''c2'',
                      sticker_url = lit ''data:image/png;base64,AAAA''\<rparr>),
        (lit ''s9'', \<lparr>sticker_owner = lit ''user'',
                      sticker_url = lit ''data:image/png;base64,BBBB''\<rparr>)]"

definition example_env :: parse_env where
  "example_env =
     \<lparr>image_key = False,
      generate_image = (\<lambda>prompt. Inl (Error (lit ''no image provider''))),
      stickers = example_stickers,
      clock = (\<lambda>k. 1000000 + int k),
      strip_name_echo = strip_literal_name\<rparr>"


section \<open>Prompt history and the responder loop: POST /api/chat (lines 423-717)\<close>

text \<open>
  A row of the history query (the last 20 messages of the chat, most recent first), and
  an entry of the list sent to the provider: \<open>{role, content}\<close> for the OpenAI-compatible
  provider, \<open>{role, parts: [{text}]}\<close> for Gemini.
\<close>

record history_row =
  row_sender_id :: "jsstring option"
  row_content :: jsstring

record turn =
  turn_role :: jsstring
  turn_text :: jsstring

text \<open>
  Lines 476-481 and 534-539: in scenario mode with a description, the last entry, if it
  is a user entry, gets the description as a prefix.
\<close>

definition with_action :: "jsval \<Rightarrow> jsstring option \<Rightarrow> turn list \<Rightarrow> turn list" where
  "with_action mode description entries =
     (case description of
        None \<Rightarrow> entries
      | Some d \<Rightarrow>
          if mode = JStr (lit ''scenario'') \<and> d \<noteq> [] then
            (case rev entries of
               [] \<Rightarrow> entries
             | lastMsg # earlier \<Rightarrow>
                 if turn_role lastMsg = lit ''user''
                 then rev earlier
                        @ [lastMsg\<lparr>turn_text := lit ''(Action/Context: '' @ d @ lit '') ''
                                                   @ turn_text lastMsg\<rparr>]
                 else entries)
          else entries)"

text \<open>The note of lines 514 and 572.\<close>

definition image_note :: "jsstring \<Rightarrow> jsstring" where
  "image_note imageDescription =
     lit ''[User sent an image. Description: '' @ imageDescription @ lit '']''"

text \<open>
  Lines 470-517: the messages of the OpenAI-compatible path. \<open>systemPrompt\<close> is the text
  composed at lines 483-510 from the responder, its relationships and stickers, the
  group, the user and the settings; the image description is not among its inputs.
\<close>

definition openai_messages ::
  "jsval \<Rightarrow> jsstring option \<Rightarrow> jsstring \<Rightarrow> jsstring \<Rightarrow> history_row list \<Rightarrow> turn list" where
  "openai_messages mode description imageDescription systemPrompt history =
     (let entries =
            map (\<lambda>msg. \<lparr>turn_role = (if row_sender_id msg = Some (lit ''user'')
                                     then lit ''user'' else lit ''assistant''),
                         turn_text = row_content msg\<rparr>)
              (rev history);
          entries = with_action mode description entries;
          entries = (if imageDescription \<noteq> []
                     then entries @ [\<lparr>turn_role = lit ''system'',
                                       turn_text = image_note imageDescription\<rparr>]
                     else entries)
      in \<lparr>turn_role = lit ''system'', turn_text = systemPrompt\<rparr> # entries)"

text \<open>Lines 528-580: the request of the Gemini path.\<close>

record gemini_request =
  g_model :: jsstring
  g_contents :: "turn list"
  g_systemInstruction :: jsstring
  g_temperature :: real

definition gemini_chat_request ::
  "jsval \<Rightarrow> jsstring option \<Rightarrow> jsstring \<Rightarrow> jsstring \<Rightarrow> history_row list \<Rightarrow> gemini_request" where
  "gemini_chat_request mode description imageDescription systemInstruction history =
     (let recentHistory =
            map (\<lambda>msg. \<lparr>turn_role = (if row_sender_id msg = Some (lit ''user'')
                                     then lit ''user'' else lit ''model''),
                         turn_text = row_content msg\<rparr>)
              (rev history);
          recentHistory = with_action mode description recentHistory;
          recentHistory = (if imageDescription \<noteq> []
                           then recentHistory @ [\<lparr>turn_role = lit ''user'',
                                                   turn_text = image_note imageDescription\<rparr>]
                           else recentHistory)
      in \<lparr>g_model = lit ''gemini-3-flash-preview'', g_contents = recentHistory,
          g_systemInstruction = systemInstruction, g_temperature = 0.8\<rparr>)"

text \<open>
  What a turn works in: the built-ins and the network, the Gemini call (its \<open>result.text\<close>,
  empty when undefined), the parser's environment, the settings, the history query
  (its rows depend on the fragments inserted so far in this turn), and the composed
  system prompt of a responder.
\<close>

record turn_env =
  builtins :: js_builtins
  network :: "fetch_request \<Rightarrow> fetch_outcome"
  gemini :: "gemini_request \<Rightarrow> js_error + jsstring"
  parser :: parse_env
  settings :: settings_table
  history_query :: "fragment list \<Rightarrow> history_row list"
  system_prompt :: "character \<Rightarrow> jsstring"

definition setting :: "turn_env \<Rightarrow> string \<Rightarrow> jsstring" where
  "setting tenv k = or_default (settings tenv (lit k)) []"

definition turn_json :: "turn \<Rightarrow> jsval" where
  "turn_json t = JObj [(lit ''role'', JStr (turn_role t)), (lit ''content'', JStr (turn_text t))]"

text \<open>
  Lines 468-582: the generation for one responder, on the OpenAI-compatible path when
  \<open>chat_api_url\<close> and \<open>chat_api_key\<close> are set, on the Gemini path otherwise.
\<close>

definition generate_text ::
  "turn_env \<Rightarrow> jsval \<Rightarrow> jsstring option \<Rightarrow> jsstring \<Rightarrow> character \<Rightarrow> fragment list \<Rightarrow>
   js_error + jsval" where
  "generate_text tenv mode description imageDescription responder inserted =
     (let history = history_query tenv inserted in
      if setting tenv ''chat_api_url'' \<noteq> [] \<and> setting tenv ''chat_api_key'' \<noteq> [] then
        generateWithOpenAI (builtins tenv) (network tenv)
          (setting tenv ''chat_api_key'') (setting tenv ''chat_api_url'')
          (JStr (or_default (settings tenv (lit ''chat_model'')) (lit ''gpt-3.5-turbo'')))
          (JArr (map turn_json
                   (openai_messages mode description imageDescription
                      (system_prompt tenv responder) history)))
          0.7
      else
        (case gemini tenv
                (gemini_chat_request mode description imageDescription
                   (system_prompt tenv responder) history) of
           Inl e \<Rightarrow> Inl e
         | Inr t \<Rightarrow> Inr (JStr (if t = [] then lit ''...'' else t))))"

text \<open>
  The state of the loop: the fragments pushed onto \<open>responses\<close> (each is inserted into
  \<open>messages\<close> as it is pushed), the number of clock readings, and what \<open>console.error\<close> has
  logged.
\<close>

record chat_state =
  responses :: "fragment list"
  reads :: nat
  logged :: "js_error list"

text \<open>
  The body of the \<open>try\<close> for one responder (lines 429-711): generation, then the
  clean-up and parsing. A generated value that is not a string makes \<open>text.replace\<close>
  throw.
\<close>

definition respond ::
  "turn_env \<Rightarrow> jsval \<Rightarrow> jsstring option \<Rightarrow> jsstring \<Rightarrow> character \<Rightarrow> chat_state \<Rightarrow>
   js_error + fragment list \<times> nat" where
  "respond tenv mode description imageDescription responder st =
     (case generate_text tenv mode description imageDescription responder (responses st) of
        Inl e \<Rightarrow> Inl e
      | Inr v \<Rightarrow>
          (case v of
             JStr s \<Rightarrow> parse_reply (parser tenv) responder mode (reads st) s
           | _ \<Rightarrow> Inl TypeError))"

text \<open>Lines 427-715: the loop over the responders, with its \<open>catch\<close>.\<close>

fun chat_loop ::
  "turn_env \<Rightarrow> jsval \<Rightarrow> jsstring option \<Rightarrow> jsstring \<Rightarrow> character list \<Rightarrow> chat_state \<Rightarrow>
   chat_state" where
  "chat_loop tenv mode description imageDescription [] st = st"
| "chat_loop tenv mode description imageDescription (responder # rest) st =
     chat_loop tenv mode description imageDescription rest
       (case respond tenv mode description imageDescription responder st of
          Inl err \<Rightarrow> st\<lparr>logged := logged st @ [err]\<rparr>
        | Inr (frs, k) \<Rightarrow> st\<lparr>responses := responses st @ frs, reads := k\<rparr>)"

text \<open>Line 717: the answer of the route, \<open>res.json(responses)\<close>, with status 200.\<close>

definition post_chat ::
  "turn_env \<Rightarrow> jsval \<Rightarrow> jsstring option \<Rightarrow> jsstring \<Rightarrow> character list \<Rightarrow> nat \<times> fragment list" where
  "post_chat tenv mode description imageDescription responders =
     (200, responses (chat_loop tenv mode description imageDescription responders
                        \<lparr>responses = [], reads = 0, logged = []\<rparr>))"

text \<open>
  An example turn: the user has sent an image; the OpenAI-compatible provider answers
  Bob's request (the one whose system prompt names Bob) with 404 and any other request
  with a greeting; Gemini answers by quoting the last entry it is sent.
\<close>

definition example_history :: "history_row list" where
  "example_history =
     [\<lparr>row_sender_id = Some (lit ''user''), row_content = lit ''data:image/png;base64,CCCC''\<rparr>,
      \<lparr>row_sender_id = Some (lit ''c1''), row_content = lit ''hi''\<rparr>]"

definition example_network :: "fetch_request \<Rightarrow> fetch_outcome" where
  "example_network rq =
     (case fr_body rq of
        Some (JObj ((k1, m) # (k2, JArr (JObj [r, (c, JStr prompt)] # entries)) # others)) \<Rightarrow>
          if prompt = lit ''You are roleplaying as Bob''
          then FetchResponse \<lparr>status = 404, body_text = body_not_found\<rparr>
          else FetchResponse \<lparr>status = 200, body_text = body_hello\<rparr>
      | _ \<Rightarrow> FetchThrows (lit ''fetch failed''))"

definition example_turn_env :: turn_env where
  "example_turn_env =
     \<lparr>builtins = example_builtins,
      network = example_network,
      gemini = (\<lambda>rq. case rev (g_contents rq) of
                         [] \<Rightarrow> Inr []
                       | t # earlier \<Rightarrow> Inr (lit ''I see: '' @ turn_text t)),
      parser = example_env,
      settings = [lit ''chat_api_url'' \<mapsto> lit ''https://api.example/v1'',
                  lit ''chat_api_key'' \<mapsto> lit ''sk-1''],
      history_query = (\<lambda>inserted. example_history),
      system_prompt = (\<lambda>responder. lit ''You are roleplaying as '' @ name responder)\<rparr>"

section \<open>Theorems\<close>

subsection \<open>The chat proxy handler\<close>

text \<open>
  C9 (as amended). For every POST request that carries a body, a missing or otherwise
  falsy API key, and for a send-message request (one whose action is neither
  \<open>fetchModels\<close> nor \<open>testConnection\<close>) a missing or falsy model or messages field, is
  answered with HTTP 400 and without any outbound call.
\<close>

theorem handler_rejects_before_network:
  "req_method req = lit ''POST'' \<Longrightarrow> req_body req = Some b \<Longrightarrow>
   \<not> truthy (body_apiKey b) \<or>
     (body_action b \<noteq> JStr (lit ''fetchModels'') \<and>
      body_action b \<noteq> JStr (lit ''testConnection'') \<and>
      (\<not> truthy (body_model b) \<or> \<not> truthy (body_messages b))) \<Longrightarrow>
   res_status (handler env net req) = 400 \<and> res_calls (handler env net req) = []"
  by (auto simp: handler_def reply_def lit_def)

theorem handler_rejects_before_network_witness:
  "res_status (handler plain_builtins offline
      \<lparr>req_method = lit ''POST'', req_body = Some empty_body\<rparr>) = 400 \<and>
   res_calls (handler plain_builtins offline
      \<lparr>req_method = lit ''POST'', req_body = Some empty_body\<rparr>) = [] \<and>
   res_status (handler plain_builtins offline
      \<lparr>req_method = lit ''POST'',
       req_body = Some (empty_body\<lparr>body_apiKey := JStr (lit ''sk-1'')\<rparr>)\<rparr>) = 400"
  using handler_rejects_before_network [of
      "\<lparr>req_method = lit ''POST'', req_body = Some empty_body\<rparr>" empty_body
      plain_builtins offline]
    handler_rejects_before_network [of
      "\<lparr>req_method = lit ''POST'',
        req_body = Some (empty_body\<lparr>body_apiKey := JStr (lit ''sk-1'')\<rparr>)\<rparr>"
      "empty_body\<lparr>body_apiKey := JStr (lit ''sk-1'')\<rparr>" plain_builtins offline]
  by (simp add: empty_body_def)

text \<open>
  The claim as stated speaks of every request: a preflight OPTIONS request, which
  carries no API key, is answered with 200, and a GET request with 405.
\<close>

theorem handler_options_counterexample:
  "body_apiKey empty_body = JUndefined \<and>
   res_status (handler plain_builtins offline
      \<lparr>req_method = lit ''OPTIONS'', req_body = Some empty_body\<rparr>) = 200 \<and>
   res_status (handler plain_builtins offline
      \<lparr>req_method = lit ''GET'', req_body = Some empty_body\<rparr>) = 405"
  by (simp add: handler_def reply_def lit_def empty_body_def)

subsection \<open>Responder resolution\<close>

lemma js_includes_sublist: "js_includes s pat \<longleftrightarrow> sublist pat s"
  by (induction s) (auto simp: sublist_Cons_right)

lemma js_includes_iff: "js_includes s pat \<longleftrightarrow> (\<exists>pre post. s = pre @ pat @ post)"
  by (simp add: js_includes_sublist sublist_def)

lemma push_mentioned_filter:
  "push_mentioned content ms rs =
     rs @ filter (\<lambda>m. js_includes content (lit ''@'' @ name m)) ms"
  by (induction ms arbitrary: rs) auto

text \<open>
  C2. In a group chat whose reply mode is \<open>mentioned\<close>, the responders are exactly the
  members \<open>m\<close> for which \<open>@\<close> followed by the name of \<open>m\<close> occurs in the text as a run of
  code units (so case-sensitively, and wherever it stands), in the order of the members.
\<close>

theorem mentioned_mode_responders:
  "is_group chatEntity \<Longrightarrow> reply_mode chatEntity = Some (lit ''mentioned'') \<Longrightarrow>
   resolve_responders shuffled r chatEntity members content =
     filter (\<lambda>m. \<exists>pre post. content = pre @ (lit ''@'' @ name m) @ post) members"
proof -
  assume g: "is_group chatEntity" and m: "reply_mode chatEntity = Some (lit ''mentioned'')"
  have mode: "or_default (reply_mode chatEntity) (lit ''natural'') = lit ''mentioned''"
    by (simp add: m or_default_def lit_def)
  have neq: "lit ''mentioned'' \<noteq> lit ''all''"
    by (simp add: lit_def)
  show ?thesis
  proof (cases members)
    case Nil
    then show ?thesis by (simp add: resolve_responders_def g)
  next
    case (Cons a as)
    then show ?thesis
      by (simp add: resolve_responders_def g mode neq push_mentioned_filter js_includes_iff
            del: push_mentioned.simps)
  qed
qed

theorem mentioned_mode_responders_witness:
  "resolve_responders [] 0 club [alice, bob] (lit ''hi @Bobby and @alice'') = [bob] \<and>
   filter (\<lambda>m. \<exists>pre post. lit ''hi @Bobby and @alice'' = pre @ (lit ''@'' @ name m) @ post)
     [alice, bob] = [bob]"
proof -
  have "resolve_responders [] 0 club [alice, bob] (lit ''hi @Bobby and @alice'') = [bob]"
    by (simp add: resolve_responders_def club_def alice_def bob_def or_default_def lit_def)
  then show ?thesis
    using mentioned_mode_responders [of club "[]" 0 "[alice, bob]" "lit ''hi @Bobby and @alice''"]
    by (simp add: club_def)
qed

subsection \<open>Proactive trigger\<close>

lemma select_char_Cons:
  "select_char toLowerCase obs (c # rest) =
     (if passes toLowerCase obs c then (Some c, [c])
      else (fst (select_char toLowerCase obs rest), c # snd (select_char toLowerCase obs rest)))"
  by (simp add: passes_def split: option.splits prod.splits)

lemma select_char_first:
  "\<forall>d \<in> set pre. \<not> passes toLowerCase obs d \<Longrightarrow> passes toLowerCase obs c \<Longrightarrow>
   select_char toLowerCase obs (pre @ c # rest) = (Some c, pre @ [c])"
  by (induction pre) (simp_all add: select_char_Cons del: select_char.simps(2))

lemma select_char_none:
  "\<forall>d \<in> set cs. \<not> passes toLowerCase obs d \<Longrightarrow> select_char toLowerCase obs cs = (None, cs)"
  by (induction cs) (simp_all add: select_char_Cons del: select_char.simps(2))

lemma select_char_selected:
  "fst (select_char toLowerCase obs cs) = Some c \<Longrightarrow> c \<in> set cs \<and> passes toLowerCase obs c"
  by (induction cs) (auto simp: select_char_Cons simp del: select_char.simps(2) split: if_splits)

lemma requiredInterval_cases:
  "requiredInterval toLowerCase c =
     (if strategy_of c = lit ''active'' then 10000
      else if strategy_of c = lit ''passive'' then 600000
      else if sublist (lit ''lover'') (toLowerCase (or_default (relationship c) []))
            \<or> sublist (lit ''partner'') (toLowerCase (or_default (relationship c) []))
            \<or> sublist (lit ''wife'') (toLowerCase (or_default (relationship c) []))
            \<or> sublist (lit ''husband'') (toLowerCase (or_default (relationship c) []))
           then 30000
      else if sublist (lit ''stranger'') (toLowerCase (or_default (relationship c) [])) then 300000
      else 60000)"
  by (simp add: requiredInterval_def Let_def js_includes_sublist)

lemma chance_cases:
  "chance c = (if strategy_of c = lit ''active'' then 0.8 else if strategy_of c = lit ''passive'' then 0.2 else 0.5)"
  by (simp add: chance_def lit_def)


lemma select_char_prefix:
  "select_char toLowerCase obs cs = (Some c, seen) \<Longrightarrow>
   \<exists>pre rest. cs = pre @ c # rest \<and> seen = pre @ [c] \<and> passes toLowerCase obs c \<and>
     (\<forall>d \<in> set pre. \<not> passes toLowerCase obs d)"
proof (induction cs arbitrary: seen)
  case Nil
  then show ?case by simp
next
  case (Cons a cs)
  show ?case
  proof (cases "passes toLowerCase obs a")
    case True
    with Cons.prems have "c = a" "seen = [a]"
      by (auto simp: select_char_Cons simp del: select_char.simps(2))
    with True have "a # cs = [] @ c # cs \<and> seen = [] @ [c] \<and> passes toLowerCase obs c \<and>
        (\<forall>d \<in> set []. \<not> passes toLowerCase obs d)"
      by simp
    then show ?thesis by blast
  next
    case False
    with Cons.prems obtain seen' where s: "select_char toLowerCase obs cs = (Some c, seen')"
      and seen: "seen = a # seen'"
      by (cases "select_char toLowerCase obs cs") (simp add: select_char_Cons del: select_char.simps(2))
    from Cons.IH [OF s] obtain pre rest where
      "cs = pre @ c # rest" "seen' = pre @ [c]" "passes toLowerCase obs c" "\<forall>d \<in> set pre. \<not> passes toLowerCase obs d"
      by blast
    with False seen have "a # cs = (a # pre) @ c # rest \<and> seen = (a # pre) @ [c] \<and>
        passes toLowerCase obs c \<and> (\<forall>d \<in> set (a # pre). \<not> passes toLowerCase obs d)"
      by simp
    then show ?thesis by blast
  qed
qed

text \<open>
  C7. The quiet interval is 10 s for strategy \<open>active\<close> and 600 s for \<open>passive\<close>; for every
  other strategy, \<open>normal\<close> among them, it is 30 s when the lower-cased relationship
  label contains lover, partner, wife or husband, 300 s when it contains stranger, else
  60 s. The chances are 0.8 for \<open>active\<close>, 0.2 for \<open>passive\<close> and 0.5 for every other
  strategy. A candidate passes when it has no message, or when the time since its last
  message exceeds the interval and the draw is below the chance. The loop selects \<open>c\<close>
  having examined \<open>seen\<close> exactly when \<open>c\<close> is the first candidate of the list that passes
  and \<open>seen\<close> is the list up to and including \<open>c\<close>: it stops at the first selection. A
  \<open>normal\<close> character without keyword whose last message is 5 seconds old is not
  selected.
\<close>

theorem proactive_trigger_policy:
  "(passes toLowerCase obs c \<longleftrightarrow>
      lastTime (obs c) = None \<or>
      (\<exists>lt. lastTime (obs c) = Some lt \<and> now (obs c) - lt > requiredInterval toLowerCase c \<and>
            random (obs c) < chance c)) \<and>
   (strategy_of c = lit ''active'' \<longrightarrow> requiredInterval toLowerCase c = 10000 \<and> chance c = 0.8) \<and>
   (strategy_of c = lit ''passive'' \<longrightarrow> requiredInterval toLowerCase c = 600000 \<and> chance c = 0.2) \<and>
   (strategy_of c \<noteq> lit ''active'' \<and> strategy_of c \<noteq> lit ''passive'' \<longrightarrow>
      chance c = 0.5 \<and>
      requiredInterval toLowerCase c =
        (if sublist (lit ''lover'') (toLowerCase (or_default (relationship c) []))
            \<or> sublist (lit ''partner'') (toLowerCase (or_default (relationship c) []))
            \<or> sublist (lit ''wife'') (toLowerCase (or_default (relationship c) []))
            \<or> sublist (lit ''husband'') (toLowerCase (or_default (relationship c) []))
         then 30000
         else if sublist (lit ''stranger'') (toLowerCase (or_default (relationship c) []))
         then 300000
         else 60000)) \<and>
   (select_char toLowerCase obs cs = (Some c, seen) \<longleftrightarrow>
      (\<exists>pre rest. cs = pre @ c # rest \<and> seen = pre @ [c] \<and> passes toLowerCase obs c \<and>
         (\<forall>d \<in> set pre. \<not> passes toLowerCase obs d))) \<and>
   (strategy_of c = lit ''normal'' \<and>
    (\<forall>kw \<in> set [''lover'', ''partner'', ''wife'', ''husband'', ''stranger''].
        \<not> sublist (lit kw) (toLowerCase (or_default (relationship c) []))) \<and>
    lastTime (obs c) = Some (now (obs c) - 5000) \<longrightarrow>
      fst (select_char toLowerCase obs cs) \<noteq> Some c)"
proof -
  have ne: "lit ''normal'' \<noteq> lit ''active''" "lit ''normal'' \<noteq> lit ''passive''"
    "lit ''passive'' \<noteq> lit ''active''"
    by (simp_all add: lit_def)
  have p1: "passes toLowerCase obs c \<longleftrightarrow>
      lastTime (obs c) = None \<or>
      (\<exists>lt. lastTime (obs c) = Some lt \<and> now (obs c) - lt > requiredInterval toLowerCase c \<and>
            random (obs c) < chance c)"
    by (simp add: passes_def split: option.splits)
  have p2: "strategy_of c = lit ''active'' \<longrightarrow> requiredInterval toLowerCase c = 10000 \<and> chance c = 0.8"
    by (simp add: requiredInterval_cases chance_cases)
  have p3: "strategy_of c = lit ''passive'' \<longrightarrow> requiredInterval toLowerCase c = 600000 \<and> chance c = 0.2"
    using ne by (simp add: requiredInterval_cases chance_cases)
  have p4: "strategy_of c \<noteq> lit ''active'' \<and> strategy_of c \<noteq> lit ''passive'' \<longrightarrow>
      chance c = 0.5 \<and>
      requiredInterval toLowerCase c =
        (if sublist (lit ''lover'') (toLowerCase (or_default (relationship c) []))
            \<or> sublist (lit ''partner'') (toLowerCase (or_default (relationship c) []))
            \<or> sublist (lit ''wife'') (toLowerCase (or_default (relationship c) []))
            \<or> sublist (lit ''husband'') (toLowerCase (or_default (relationship c) []))
         then 30000
         else if sublist (lit ''stranger'') (toLowerCase (or_default (relationship c) []))
         then 300000
         else 60000)"
    using ne by (simp add: requiredInterval_cases chance_cases)
  have p5: "select_char toLowerCase obs cs = (Some c, seen) \<longleftrightarrow>
      (\<exists>pre rest. cs = pre @ c # rest \<and> seen = pre @ [c] \<and> passes toLowerCase obs c \<and>
         (\<forall>d \<in> set pre. \<not> passes toLowerCase obs d))"
    using select_char_prefix [of toLowerCase obs cs c seen] select_char_first [of _ toLowerCase obs c] by blast
  have p6: "strategy_of c = lit ''normal'' \<and>
    (\<forall>kw \<in> set [''lover'', ''partner'', ''wife'', ''husband'', ''stranger''].
        \<not> sublist (lit kw) (toLowerCase (or_default (relationship c) []))) \<and>
    lastTime (obs c) = Some (now (obs c) - 5000) \<longrightarrow>
      fst (select_char toLowerCase obs cs) \<noteq> Some c"
  proof (intro impI notI)
    assume h: "strategy_of c = lit ''normal'' \<and>
      (\<forall>kw \<in> set [''lover'', ''partner'', ''wife'', ''husband'', ''stranger''].
        \<not> sublist (lit kw) (toLowerCase (or_default (relationship c) []))) \<and>
      lastTime (obs c) = Some (now (obs c) - 5000)"
      and sel: "fst (select_char toLowerCase obs cs) = Some c"
    from h ne have "requiredInterval toLowerCase c = 60000"
      by (simp add: requiredInterval_cases)
    with h have "\<not> passes toLowerCase obs c"
      by (simp add: passes_def)
    with select_char_selected [OF sel] show False by simp
  qed
  from p1 p2 p3 p4 p5 p6 show ?thesis by blast
qed

theorem proactive_trigger_policy_witness:
  "requiredInterval ascii_lower bob = 30000 \<and> requiredInterval ascii_lower alice = 60000 \<and>
   requiredInterval ascii_lower carol = 10000 \<and>
   select_char ascii_lower tick [alice, bob, carol] = (Some bob, [alice, bob]) \<and>
   fst (select_char ascii_lower tick [alice, bob, carol]) \<noteq> Some alice \<and>
   chance (carol\<lparr>reply_strategy := Some (lit ''shy'')\<rparr>) = 0.5"
proof -
  have ne: "alice \<noteq> bob" "bob \<noteq> alice"
    by (simp_all add: alice_def bob_def lit_def)
  have sa: "strategy_of alice = lit ''normal''" and sb: "strategy_of bob = lit ''normal''"
    and sc: "strategy_of carol = lit ''active''"
    by (simp_all add: strategy_of_def or_default_def alice_def bob_def carol_def lit_def)
  have ra: "ascii_lower (or_default (relationship alice) []) = lit ''friend''"
    and rb: "ascii_lower (or_default (relationship bob) []) = lit ''my lover''"
    by (simp_all add: alice_def bob_def or_default_def ascii_lower_def lit_def)
  have kwa: "\<forall>kw \<in> set [''lover'', ''partner'', ''wife'', ''husband'', ''stranger''].
        \<not> sublist (lit kw) (ascii_lower (or_default (relationship alice) []))"
    unfolding ra js_includes_sublist [symmetric] by (simp add: lit_def)
  have kwb: "sublist (lit ''lover'') (ascii_lower (or_default (relationship bob) []))"
    unfolding rb js_includes_sublist [symmetric] by (simp add: lit_def)
  note A = proactive_trigger_policy [where toLowerCase = ascii_lower and obs = tick and c = alice
      and cs = "[alice, bob, carol]" and seen = "[alice, bob]"]
  note B = proactive_trigger_policy [where toLowerCase = ascii_lower and obs = tick and c = bob
      and cs = "[alice, bob, carol]" and seen = "[alice, bob]"]
  note C = proactive_trigger_policy [where toLowerCase = ascii_lower and obs = tick and c = carol
      and cs = "[alice, bob, carol]" and seen = "[alice, bob]"]
  have nn0: "lit ''normal'' \<noteq> lit ''active''" "lit ''normal'' \<noteq> lit ''passive''"
    by (simp_all add: lit_def)
  have ia: "requiredInterval ascii_lower alice = 60000"
    using A sa kwa nn0 by simp
  have ib: "requiredInterval ascii_lower bob = 30000"
    using B sb kwb nn0 by simp
  have ic: "requiredInterval ascii_lower carol = 10000"
    using C sc by simp
  have cb: "chance bob = 0.5"
    using B sb nn0 by simp
  have pa: "\<not> passes ascii_lower tick alice"
    using A ia by (simp add: tick_def)
  have pb: "passes ascii_lower tick bob"
    using B ib cb ne by (simp add: tick_def)
  have sel: "select_char ascii_lower tick [alice, bob, carol] = (Some bob, [alice, bob])"
  proof -
    have "[alice, bob, carol] = [alice] @ bob # [carol] \<and> [alice, bob] = [alice] @ [bob] \<and>
        passes ascii_lower tick bob \<and> (\<forall>d \<in> set [alice]. \<not> passes ascii_lower tick d)"
      using pa pb by simp
    then show ?thesis using B by blast
  qed
  have na: "fst (select_char ascii_lower tick [alice, bob, carol]) \<noteq> Some alice"
    using A sa kwa by (simp add: tick_def)
  have nn: "lit ''normal'' \<noteq> lit ''active''" "lit ''normal'' \<noteq> lit ''passive''"
    "lit ''shy'' \<noteq> lit ''active''" "lit ''shy'' \<noteq> lit ''passive''"
    by (simp_all add: lit_def)
  have sd: "strategy_of (carol\<lparr>reply_strategy := Some (lit ''shy'')\<rparr>) = lit ''shy''"
    by (simp add: strategy_of_def or_default_def lit_def)
  have cd: "chance (carol\<lparr>reply_strategy := Some (lit ''shy'')\<rparr>) = 0.5"
    using proactive_trigger_policy [where toLowerCase = ascii_lower and obs = tick
        and c = "carol\<lparr>reply_strategy := Some (lit ''shy'')\<rparr>"
        and cs = "[alice, bob, carol]" and seen = "[alice, bob]"] sd nn
    by simp
  from ia ib ic sel na cd show ?thesis by simp
qed

subsection \<open>The OpenAI-compatible chat adapter\<close>

text \<open>
  C4 (as amended). On a non-success status the adapter raises an error whose message is
  \<open>[HTTP status]\<close> followed by the message taken from the body: when the body is JSON
  with a truthy \<open>error\<close>, that is \<open>error.message\<close> if truthy and the JSON text of \<open>error\<close>
  otherwise; when \<open>error\<close> is falsy it is \<open>message\<close> if truthy; in every other case the raw
  body text. On success it raises an error when the body is not JSON, when \<open>choices\<close> or
  \<open>choices[0]\<close> is falsy, or when \<open>choices[0].message\<close> is \<open>undefined\<close> or \<open>null\<close>; otherwise
  it returns \<open>choices[0].message.content\<close> as it is, be it absent or empty.
\<close>

theorem openai_adapter_behaviour:
  "(net (chat_completion_request apiKey baseURL model messages temperature) = FetchResponse r \<and>
    \<not> ok r \<longrightarrow>
      generateWithOpenAI env net apiKey baseURL model messages temperature =
        Inl (Error (lit ''[HTTP '' @ digits (status r) @ lit ''] ''
               @ interp env (openai_error_message env (body_text r)))) \<and>
      (\<forall>j e m. json_parse env (body_text r) = Inr j \<and> get_prop j ''error'' = Inr e \<and> truthy e \<and>
          get_prop e ''message'' = Inr m \<longrightarrow>
          openai_error_message env (body_text r) =
            (if truthy m then m else JStr (json_stringify env e))) \<and>
      (\<forall>j e m. json_parse env (body_text r) = Inr j \<and> get_prop j ''error'' = Inr e \<and>
          \<not> truthy e \<and> get_prop j ''message'' = Inr m \<longrightarrow>
          openai_error_message env (body_text r) =
            (if truthy m then m else JStr (body_text r))) \<and>
      ((\<exists>m. json_parse env (body_text r) = Inl m) \<or> json_parse env (body_text r) = Inr JNull \<longrightarrow>
          openai_error_message env (body_text r) = JStr (body_text r))) \<and>
   (net (chat_completion_request apiKey baseURL model messages temperature) = FetchResponse r \<and>
    ok r \<longrightarrow>
      (\<forall>m. json_parse env (body_text r) = Inl m \<longrightarrow>
         generateWithOpenAI env net apiKey baseURL model messages temperature =
           Inl (SyntaxError m)) \<and>
      (\<forall>data choices. json_parse env (body_text r) = Inr data \<and>
          get_prop data ''choices'' = Inr choices \<and>
          (\<not> truthy choices \<or> (\<exists>choice. get_index0 choices = Inr choice \<and> \<not> truthy choice)) \<longrightarrow>
          generateWithOpenAI env net apiKey baseURL model messages temperature =
            Inl (Error missing_choices)) \<and>
      (\<forall>data choices choice msg. json_parse env (body_text r) = Inr data \<and>
          get_prop data ''choices'' = Inr choices \<and> truthy choices \<and>
          get_index0 choices = Inr choice \<and> truthy choice \<and>
          get_prop choice ''message'' = Inr msg \<longrightarrow>
          generateWithOpenAI env net apiKey baseURL model messages temperature =
            (if msg = JUndefined \<or> msg = JNull then Inl TypeError
             else Inr (case msg of
                         JObj kvs \<Rightarrow> (case map_of kvs (lit ''content'') of
                                        None \<Rightarrow> JUndefined | Some content \<Rightarrow> content)
                       | _ \<Rightarrow> JUndefined))))"
  by (auto simp: generateWithOpenAI_def openai_error_message_def openai_content_def
        get_prop_def split: sum.splits jsval.splits)

theorem openai_adapter_behaviour_witness:
  "generateWithOpenAI example_builtins (answering 404 body_not_found) (lit ''sk-1'')
     (lit ''https://api.example/v1/'') (JStr (lit ''gpt'')) (JArr []) 0.7
     = Inl (Error (lit ''[HTTP 404] model not found'')) \<and>
   generateWithOpenAI example_builtins (answering 200 body_hello) (lit ''sk-1'')
     (lit ''https://api.example/v1/'') (JStr (lit ''gpt'')) (JArr []) 0.7
     = Inr (JStr (lit ''hello''))"
proof -
  let ?rq = "chat_completion_request (lit ''sk-1'') (lit ''https://api.example/v1/'')
      (JStr (lit ''gpt'')) (JArr []) 0.7"
  let ?r1 = "\<lparr>status = 404, body_text = body_not_found\<rparr>"
  let ?r2 = "\<lparr>status = 200, body_text = body_hello\<rparr>"
  have n1: "answering 404 body_not_found ?rq = FetchResponse ?r1 \<and> \<not> ok ?r1"
    by (simp add: answering_def ok_def)
  have n2: "answering 200 body_hello ?rq = FetchResponse ?r2 \<and> ok ?r2"
    by (simp add: answering_def ok_def)
  have p1: "json_parse example_builtins body_not_found =
      Inr (JObj [(lit ''error'', JObj [(lit ''message'', JStr (lit ''model not found''))])])"
    by (simp add: example_builtins_def example_parse_def body_not_found_def
          body_empty_content_def body_hello_def lit_def)
  have p2: "json_parse example_builtins body_hello =
      Inr (JObj [(lit ''choices'',
             JArr [JObj [(lit ''message'', JObj [(lit ''content'', JStr (lit ''hello''))])]])])"
    by (simp add: example_builtins_def example_parse_def body_empty_content_def body_hello_def
          lit_def)
  have m1: "openai_error_message example_builtins body_not_found = JStr (lit ''model not found'')"
    using openai_adapter_behaviour [of "answering 404 body_not_found" "lit ''sk-1''"
        "lit ''https://api.example/v1/''" "JStr (lit ''gpt'')" "JArr []" "0.7" ?r1
        example_builtins] n1 p1
    by (simp add: get_prop_def lit_def)
  have e1: "generateWithOpenAI example_builtins (answering 404 body_not_found) (lit ''sk-1'')
     (lit ''https://api.example/v1/'') (JStr (lit ''gpt'')) (JArr []) 0.7
     = Inl (Error (lit ''[HTTP 404] model not found''))"
    using openai_adapter_behaviour [of "answering 404 body_not_found" "lit ''sk-1''"
        "lit ''https://api.example/v1/''" "JStr (lit ''gpt'')" "JArr []" "0.7" ?r1
        example_builtins] n1 m1
    by (simp add: interp_def digits.simps lit_def)
  have e2: "generateWithOpenAI example_builtins (answering 200 body_hello) (lit ''sk-1'')
     (lit ''https://api.example/v1/'') (JStr (lit ''gpt'')) (JArr []) 0.7
     = Inr (JStr (lit ''hello''))"
    using openai_adapter_behaviour [of "answering 200 body_hello" "lit ''sk-1''"
        "lit ''https://api.example/v1/''" "JStr (lit ''gpt'')" "JArr []" "0.7" ?r2
        example_builtins] n2 p2
    by (simp add: get_prop_def get_index0_def lit_def)
  from e1 e2 show ?thesis by simp
qed

text \<open>
  The claim as stated fails on an empty content, which a successful call returns, and on
  an error body whose \<open>error\<close> has no message: the adapter reports the JSON text of
  \<open>error\<close>, not the top-level \<open>message\<close>.
\<close>

theorem openai_adapter_counterexample:
  \<open>generateWithOpenAI example_builtins (answering 200 body_empty_content) (lit ''sk-1'')
     (lit ''https://api.example/v1/'') (JStr (lit ''gpt'')) (JArr []) 0.7 = Inr (JStr []) \<and>
   generateWithOpenAI example_builtins (answering 500 body_error_code) (lit ''sk-1'')
     (lit ''https://api.example/v1/'') (JStr (lit ''gpt'')) (JArr []) 0.7
     = Inl (Error (lit ''[HTTP 500] {"code":7}''))\<close>
  by (simp add: generateWithOpenAI_def answering_def ok_def openai_content_def
      openai_error_message_def example_builtins_def example_parse_def example_stringify_def
      get_prop_def get_index0_def body_error_code_def body_empty_content_def body_hello_def
      body_not_found_def interp_def digits.simps lit_def)

subsection \<open>The OpenAI-compatible image adapter\<close>

lemma image_attempt_soft:
  "soft_failure env outcome \<Longrightarrow> image_attempt env outcome st = Continue (soft_update env st outcome)"
  by (auto simp: soft_failure_def soft_update_def image_attempt_def Let_def
        split: fetch_outcome.splits sum.splits option.splits if_splits)

lemma image_loop_soft:
  "\<forall>b \<in> set pre. soft_failure env (net (mk b)) \<Longrightarrow>
   image_loop env net mk (pre @ rest) st sent =
     image_loop env net mk rest (foldl (\<lambda>s b. soft_update env s (net (mk b))) st pre)
       (sent @ map mk pre)"
  by (induction pre arbitrary: st sent) (simp_all add: image_attempt_soft)

lemma image_loop_sent:
  "\<exists>k. snd (image_loop env net mk bodies st sent) = sent @ map mk (take k bodies)"
proof (induction bodies arbitrary: st sent)
  case Nil
  then show ?case by simp
next
  case (Cons b bodies)
  show ?case
  proof (cases "image_attempt env (net (mk b)) st")
    case (Return v)
    then have "snd (image_loop env net mk (b # bodies) st sent) = sent @ map mk (take 1 (b # bodies))"
      by simp
    then show ?thesis by blast
  next
    case (Break st')
    then have "snd (image_loop env net mk (b # bodies) st sent) = sent @ map mk (take 1 (b # bodies))"
      by simp
    then show ?thesis by blast
  next
    case (Continue st')
    from Cons.IH [of st' "sent @ [mk b]"] obtain k where
      "snd (image_loop env net mk bodies st' (sent @ [mk b])) = (sent @ [mk b]) @ map mk (take k bodies)"
      by blast
    with Continue have "snd (image_loop env net mk (b # bodies) st sent) =
        sent @ map mk (take (Suc k) (b # bodies))"
      by simp
    then show ?thesis by blast
  qed
qed

lemma failure_statuses_Cons:
  "failure_statuses (outcome # outcomes) =
     (case outcome of FetchThrows m \<Rightarrow> []
      | FetchResponse response \<Rightarrow> if ok response then [] else [status response])
     @ failure_statuses outcomes"
  by (simp add: failure_statuses_def)

lemma soft_update_step:
  "soft_failure env outcome \<Longrightarrow>
   lastStatus (soft_update env st outcome) =
     (case outcome of FetchThrows m \<Rightarrow> lastStatus st
      | FetchResponse r \<Rightarrow> if ok r then lastStatus st else status r)"
  by (auto simp: soft_failure_def soft_update_def image_attempt_def Let_def
        split: fetch_outcome.splits sum.splits option.splits if_splits)

lemma soft_update_lastStatus:
  "\<forall>b \<in> set bs. soft_failure env (f b) \<Longrightarrow>
   lastStatus (foldl (\<lambda>s b. soft_update env s (f b)) st bs) =
     (case failure_statuses (map f bs) of [] \<Rightarrow> lastStatus st | s # ss \<Rightarrow> last (s # ss))"
proof (induction bs arbitrary: st)
  case Nil
  then show ?case by (simp add: failure_statuses_def)
next
  case (Cons b bs)
  from Cons.prems have soft: "soft_failure env (f b)"
    and rest: "\<forall>b \<in> set bs. soft_failure env (f b)" by simp_all
  show ?case
    using Cons.IH [OF rest, of "soft_update env st (f b)"] soft_update_step [OF soft, of st]
    by (cases "f b")
       (auto simp: failure_statuses_Cons split: list.splits if_splits)
qed

lemma failure_messages_Cons:
  "failure_messages env (outcome # outcomes) =
     (case outcome of
        FetchThrows m \<Rightarrow> [m]
      | FetchResponse response \<Rightarrow>
          if ok response
          then (case read_image env response of Inl e \<Rightarrow> [message_of env e] | Inr v \<Rightarrow> [])
          else [body_text response])
     @ failure_messages env outcomes"
  by (simp add: failure_messages_def)

lemma soft_update_error_step:
  "soft_failure env outcome \<Longrightarrow>
   lastError (soft_update env st outcome) =
     (case outcome of
        FetchThrows m \<Rightarrow> Some m
      | FetchResponse r \<Rightarrow>
          if ok r
          then (case read_image env r of Inl e \<Rightarrow> Some (message_of env e) | Inr v \<Rightarrow> lastError st)
          else Some (body_text r))"
  by (auto simp: soft_failure_def soft_update_def image_attempt_def Let_def
        split: fetch_outcome.splits sum.splits option.splits if_splits)

lemma soft_update_lastError:
  "\<forall>b \<in> set bs. soft_failure env (f b) \<Longrightarrow>
   lastError (foldl (\<lambda>s b. soft_update env s (f b)) st bs) =
     (case failure_messages env (map f bs) of [] \<Rightarrow> lastError st | m # ms \<Rightarrow> Some (last (m # ms)))"
proof (induction bs arbitrary: st)
  case Nil
  then show ?case by (simp add: failure_messages_def)
next
  case (Cons b bs)
  from Cons.prems have soft: "soft_failure env (f b)"
    and rest: "\<forall>b \<in> set bs. soft_failure env (f b)" by simp_all
  show ?case
    using Cons.IH [OF rest, of "soft_update env st (f b)"] soft_update_error_step [OF soft, of st]
    by (cases "f b")
       (auto simp: failure_messages_Cons split: list.splits if_splits sum.splits)
qed

text \<open>
  C6 (as amended). The adapter sends the three bodies (with size, without size, minimal)
  in this order and nothing else. It stops at the first attempt that is a success
  carrying an image, and returns that image; an attempt that throws, a failure other
  than 401 and 404, and also a success that carries no image, make it go on to the next
  body. After a 401 or a 404 it sends nothing more and raises the error of that response.
  When every attempt lets it go on, it raises an error with the status of the last
  failure response (0 when there was none) and the message decoded from the last error
  (the message of a thrown \<open>fetch\<close> or read, or the body of a failure response; none when
  every attempt was a success without image). What a success carries: reading throws
  when the body is not JSON or \<open>data\<close> cannot be read; there is no image when \<open>data\<close> or
  \<open>data[0]\<close> is falsy; a truthy \<open>b64_json\<close> gives the base64 data URI whatever the \<open>url\<close>;
  with a falsy \<open>b64_json\<close>, a truthy \<open>url\<close> is returned as it is and a falsy one is no
  image.
\<close>

theorem image_adapter_behaviour:
  "(\<forall>pre body post.
      image_bodies model prompt = pre @ body # post \<and>
      (\<forall>b \<in> set pre. soft_failure env (net (image_request apiKey baseURL b))) \<longrightarrow>
        (\<forall>r v. net (image_request apiKey baseURL body) = FetchResponse r \<and> ok r \<and>
            read_image env r = Inr (Some v) \<longrightarrow>
            generateImageWithOpenAI env net apiKey baseURL model prompt =
              (Inr v, map (image_request apiKey baseURL) (pre @ [body]))) \<and>
        (\<forall>r. net (image_request apiKey baseURL body) = FetchResponse r \<and>
            (status r = 401 \<or> status r = 404) \<longrightarrow>
            generateImageWithOpenAI env net apiKey baseURL model prompt =
              (Inl (Error (lit ''[HTTP '' @ digits (status r) @ lit ''] ''
                      @ interp env (image_error_message env model
                          \<lparr>lastError = Some (body_text r), lastStatus = status r\<rparr>))),
               map (image_request apiKey baseURL) (pre @ [body])))) \<and>
   ((\<forall>b \<in> set (image_bodies model prompt).
        soft_failure env (net (image_request apiKey baseURL b))) \<longrightarrow>
      generateImageWithOpenAI env net apiKey baseURL model prompt =
        (Inl (Error (lit ''[HTTP ''
                @ digits (case failure_statuses
                                 (map (\<lambda>b. net (image_request apiKey baseURL b))
                                    (image_bodies model prompt)) of
                            [] \<Rightarrow> 0 | s # ss \<Rightarrow> last (s # ss))
                @ lit ''] ''
                @ interp env (image_error_message env model
                    \<lparr>lastError =
                       (case failure_messages env
                               (map (\<lambda>b. net (image_request apiKey baseURL b))
                                  (image_bodies model prompt)) of
                          [] \<Rightarrow> None | m # ms \<Rightarrow> Some (last (m # ms))),
                     lastStatus =
                       (case failure_statuses
                               (map (\<lambda>b. net (image_request apiKey baseURL b))
                                  (image_bodies model prompt)) of
                          [] \<Rightarrow> 0 | s # ss \<Rightarrow> last (s # ss))\<rparr>))),
         map (image_request apiKey baseURL) (image_bodies model prompt))) \<and>
   (\<forall>r m. json_parse env (body_text r) = Inl m \<longrightarrow> read_image env r = Inl (SyntaxError m)) \<and>
   (\<forall>r data e. json_parse env (body_text r) = Inr data \<and> get_prop data ''data'' = Inl e \<longrightarrow>
      read_image env r = Inl e) \<and>
   (\<forall>r data d. json_parse env (body_text r) = Inr data \<and> get_prop data ''data'' = Inr d \<and>
      \<not> truthy d \<longrightarrow> read_image env r = Inr None) \<and>
   (\<forall>r data d imageData.
      json_parse env (body_text r) = Inr data \<and> get_prop data ''data'' = Inr d \<and> truthy d \<and>
      get_index0 d = Inr imageData \<and> \<not> truthy imageData \<longrightarrow> read_image env r = Inr None) \<and>
   (\<forall>r data d imageData b64.
      json_parse env (body_text r) = Inr data \<and> get_prop data ''data'' = Inr d \<and> truthy d \<and>
      get_index0 d = Inr imageData \<and> truthy imageData \<and>
      get_prop imageData ''b64_json'' = Inr b64 \<and> truthy b64 \<longrightarrow>
        read_image env r = Inr (Some (JStr (lit ''data:image/png;base64,'' @ interp env b64)))) \<and>
   (\<forall>r data d imageData b64 u.
      json_parse env (body_text r) = Inr data \<and> get_prop data ''data'' = Inr d \<and> truthy d \<and>
      get_index0 d = Inr imageData \<and> truthy imageData \<and>
      get_prop imageData ''b64_json'' = Inr b64 \<and> \<not> truthy b64 \<and>
      get_prop imageData ''url'' = Inr u \<longrightarrow>
        read_image env r = (if truthy u then Inr (Some u) else Inr None)) \<and>
   prefix (snd (generateImageWithOpenAI env net apiKey baseURL model prompt))
     (map (image_request apiKey baseURL) (image_bodies model prompt))"
proof -
  let ?mk = "image_request apiKey baseURL"
  let ?st0 = "\<lparr>lastError = None, lastStatus = 0\<rparr>"
  let ?run = "\<lambda>bodies. image_loop env net ?mk bodies ?st0 []"
  let ?outs = "map (\<lambda>b. net (?mk b)) (image_bodies model prompt)"
  let ?LS = "case failure_statuses ?outs of [] \<Rightarrow> 0 | s # ss \<Rightarrow> last (s # ss)"
  let ?LE = "case failure_messages env ?outs of [] \<Rightarrow> None | m # ms \<Rightarrow> Some (last (m # ms))"
  have gen: "generateImageWithOpenAI env net apiKey baseURL model prompt =
      (case ?run (image_bodies model prompt) of
         (Inl v, sent) \<Rightarrow> (Inr v, sent)
       | (Inr st, sent) \<Rightarrow>
          (Inl (Error (lit ''[HTTP '' @ digits (lastStatus st) @ lit ''] ''
                  @ interp env (image_error_message env model st))), sent))"
    by (simp add: generateImageWithOpenAI_def)
  have a: "generateImageWithOpenAI env net apiKey baseURL model prompt = (Inr v, map ?mk (pre @ [body]))"
    if "image_bodies model prompt = pre @ body # post"
      and "\<forall>b \<in> set pre. soft_failure env (net (?mk b))"
      and "net (?mk body) = FetchResponse r" and "ok r" and "read_image env r = Inr (Some v)"
    for pre body post r v
  proof -
    have "image_attempt env (net (?mk body)) st = Return v" for st
      using that(3-5) by (simp add: image_attempt_def)
    then have "?run (pre @ body # post) = (Inl v, map ?mk pre @ [?mk body])"
      using image_loop_soft [OF that(2), of "body # post" ?st0 "[]"] by simp
    then show ?thesis by (simp add: gen that(1))
  qed
  have b: "generateImageWithOpenAI env net apiKey baseURL model prompt =
      (Inl (Error (lit ''[HTTP '' @ digits (status r) @ lit ''] ''
              @ interp env (image_error_message env model
                  \<lparr>lastError = Some (body_text r), lastStatus = status r\<rparr>))),
       map ?mk (pre @ [body]))"
    if "image_bodies model prompt = pre @ body # post"
      and "\<forall>b \<in> set pre. soft_failure env (net (?mk b))"
      and "net (?mk body) = FetchResponse r" and "status r = 401 \<or> status r = 404"
    for pre body post r
  proof -
    have "\<not> ok r" using that(4) by (auto simp: ok_def)
    then have "image_attempt env (net (?mk body)) st =
        Break \<lparr>lastError = Some (body_text r), lastStatus = status r\<rparr>" for st
      using that(3,4) by (simp add: image_attempt_def Let_def)
    then have "?run (pre @ body # post) =
        (Inr \<lparr>lastError = Some (body_text r), lastStatus = status r\<rparr>, map ?mk pre @ [?mk body])"
      using image_loop_soft [OF that(2), of "body # post" ?st0 "[]"] by simp
    then show ?thesis by (simp add: gen that(1))
  qed
  have c: "generateImageWithOpenAI env net apiKey baseURL model prompt =
        (Inl (Error (lit ''[HTTP '' @ digits ?LS @ lit ''] ''
                @ interp env (image_error_message env model
                    \<lparr>lastError = ?LE, lastStatus = ?LS\<rparr>))),
         map ?mk (image_bodies model prompt))"
    if soft: "\<forall>b \<in> set (image_bodies model prompt). soft_failure env (net (?mk b))"
  proof -
    let ?stF = "foldl (\<lambda>s b. soft_update env s (net (?mk b))) ?st0 (image_bodies model prompt)"
    have run: "?run (image_bodies model prompt) = (Inr ?stF, map ?mk (image_bodies model prompt))"
      using image_loop_soft [OF soft, of "[]" ?st0 "[]"] by simp
    have ls: "lastStatus ?stF = ?LS"
      using soft_update_lastStatus [of "image_bodies model prompt" env "\<lambda>b. net (?mk b)" ?st0] soft
      by (simp split: list.splits)
    have le: "lastError ?stF = ?LE"
      using soft_update_lastError [of "image_bodies model prompt" env "\<lambda>b. net (?mk b)" ?st0] soft
      by (simp split: list.splits)
    from ls le have "?stF = \<lparr>lastError = ?LE, lastStatus = ?LS\<rparr>"
      by (intro image_state.equality) simp_all
    with run have "?run (image_bodies model prompt) =
        (Inr \<lparr>lastError = ?LE, lastStatus = ?LS\<rparr>, map ?mk (image_bodies model prompt))"
      by simp
    then show ?thesis
      unfolding gen by simp
  qed
  have r1: "read_image env r = Inl (SyntaxError m)"
    if "json_parse env (body_text r) = Inl m" for r m
    using that by (simp add: read_image_def)
  have r2: "read_image env r = Inl e"
    if "json_parse env (body_text r) = Inr data" "get_prop data ''data'' = Inl e" for r data e
    using that by (simp add: read_image_def)
  have r3: "read_image env r = Inr None"
    if "json_parse env (body_text r) = Inr data" "get_prop data ''data'' = Inr d" "\<not> truthy d"
    for r data d
    using that by (simp add: read_image_def)
  have r4: "read_image env r = Inr None"
    if "json_parse env (body_text r) = Inr data" "get_prop data ''data'' = Inr d" "truthy d"
      "get_index0 d = Inr imageData" "\<not> truthy imageData"
    for r data d imageData
    using that by (simp add: read_image_def)
  have d: "read_image env r = Inr (Some (JStr (lit ''data:image/png;base64,'' @ interp env b64)))"
    if "json_parse env (body_text r) = Inr data" "get_prop data ''data'' = Inr d" "truthy d"
      "get_index0 d = Inr imageData" "truthy imageData"
      "get_prop imageData ''b64_json'' = Inr b64" "truthy b64"
    for r data d imageData b64
    using that by (simp add: read_image_def)
  have u: "read_image env r = (if truthy u then Inr (Some u) else Inr None)"
    if "json_parse env (body_text r) = Inr data" "get_prop data ''data'' = Inr d" "truthy d"
      "get_index0 d = Inr imageData" "truthy imageData"
      "get_prop imageData ''b64_json'' = Inr b64" "\<not> truthy b64"
      "get_prop imageData ''url'' = Inr u"
    for r data d imageData b64 u
    using that by (simp add: read_image_def)
  have e: "prefix (snd (generateImageWithOpenAI env net apiKey baseURL model prompt))
     (map ?mk (image_bodies model prompt))"
  proof -
    obtain k where "snd (?run (image_bodies model prompt)) = map ?mk (take k (image_bodies model prompt))"
      using image_loop_sent [of env net ?mk "image_bodies model prompt" ?st0 "[]"] by auto
    moreover have "snd (generateImageWithOpenAI env net apiKey baseURL model prompt) =
        snd (?run (image_bodies model prompt))"
      by (simp add: gen split: prod.splits sum.splits)
    ultimately show ?thesis
      by (simp add: take_map [symmetric] take_is_prefix)
  qed
  have A: "\<forall>pre body post.
      image_bodies model prompt = pre @ body # post \<and>
      (\<forall>b \<in> set pre. soft_failure env (net (?mk b))) \<longrightarrow>
        (\<forall>r v. net (?mk body) = FetchResponse r \<and> ok r \<and>
            read_image env r = Inr (Some v) \<longrightarrow>
            generateImageWithOpenAI env net apiKey baseURL model prompt =
              (Inr v, map ?mk (pre @ [body]))) \<and>
        (\<forall>r. net (?mk body) = FetchResponse r \<and>
            (status r = 401 \<or> status r = 404) \<longrightarrow>
            generateImageWithOpenAI env net apiKey baseURL model prompt =
              (Inl (Error (lit ''[HTTP '' @ digits (status r) @ lit ''] ''
                      @ interp env (image_error_message env model
                          \<lparr>lastError = Some (body_text r), lastStatus = status r\<rparr>))),
               map ?mk (pre @ [body])))"
    using a b by blast
  have C: "(\<forall>b \<in> set (image_bodies model prompt). soft_failure env (net (?mk b))) \<longrightarrow>
      generateImageWithOpenAI env net apiKey baseURL model prompt =
        (Inl (Error (lit ''[HTTP '' @ digits ?LS @ lit ''] ''
                @ interp env (image_error_message env model
                    \<lparr>lastError = ?LE, lastStatus = ?LS\<rparr>))),
         map ?mk (image_bodies model prompt))"
  proof (intro impI)
    assume "\<forall>b \<in> set (image_bodies model prompt). soft_failure env (net (?mk b))"
    from c [OF this] show "generateImageWithOpenAI env net apiKey baseURL model prompt =
        (Inl (Error (lit ''[HTTP '' @ digits ?LS @ lit ''] ''
                @ interp env (image_error_message env model
                    \<lparr>lastError = ?LE, lastStatus = ?LS\<rparr>))),
         map ?mk (image_bodies model prompt))" .
  qed
  have R1: "\<forall>r m. json_parse env (body_text r) = Inl m \<longrightarrow> read_image env r = Inl (SyntaxError m)"
    using r1 by blast
  have R2: "\<forall>r data e. json_parse env (body_text r) = Inr data \<and> get_prop data ''data'' = Inl e \<longrightarrow>
      read_image env r = Inl e"
    using r2 by blast
  have R3: "\<forall>r data d. json_parse env (body_text r) = Inr data \<and> get_prop data ''data'' = Inr d \<and>
      \<not> truthy d \<longrightarrow> read_image env r = Inr None"
    using r3 by blast
  have R4: "\<forall>r data d imageData.
      json_parse env (body_text r) = Inr data \<and> get_prop data ''data'' = Inr d \<and> truthy d \<and>
      get_index0 d = Inr imageData \<and> \<not> truthy imageData \<longrightarrow> read_image env r = Inr None"
    using r4 by blast
  have D: "\<forall>r data d imageData b64.
      json_parse env (body_text r) = Inr data \<and> get_prop data ''data'' = Inr d \<and> truthy d \<and>
      get_index0 d = Inr imageData \<and> truthy imageData \<and>
      get_prop imageData ''b64_json'' = Inr b64 \<and> truthy b64 \<longrightarrow>
        read_image env r = Inr (Some (JStr (lit ''data:image/png;base64,'' @ interp env b64)))"
    using d by blast
  have U: "\<forall>r data d imageData b64 u.
      json_parse env (body_text r) = Inr data \<and> get_prop data ''data'' = Inr d \<and> truthy d \<and>
      get_index0 d = Inr imageData \<and> truthy imageData \<and>
      get_prop imageData ''b64_json'' = Inr b64 \<and> \<not> truthy b64 \<and>
      get_prop imageData ''url'' = Inr u \<longrightarrow>
        read_image env r = (if truthy u then Inr (Some u) else Inr None)"
    using u by blast
  show ?thesis
    by (rule conjI [OF A conjI [OF C conjI [OF R1 conjI [OF R2 conjI [OF R3 conjI [OF R4
          conjI [OF D conjI [OF U e]]]]]]]])
qed


lemmas example_defs = example_builtins_def example_parse_def example_stringify_def
  body_empty_content_def body_hello_def body_not_found_def body_error_code_def
  body_no_image_def body_image_both_def

theorem image_adapter_behaviour_witness:
  "generateImageWithOpenAI example_builtins
     (answering_variants (FetchResponse \<lparr>status = 400, body_text = body_error_code\<rparr>)
        (FetchThrows (lit ''socket hang up''))
        (FetchResponse \<lparr>status = 200, body_text = body_image_both\<rparr>))
     (lit ''sk-1'') (lit ''https://api.example/v1/'') (lit ''dall-e'') (lit ''a cat'')
   = (Inr (JStr (lit ''data:image/png;base64,QUJD'')),
      map (image_request (lit ''sk-1'') (lit ''https://api.example/v1/''))
        (image_bodies (lit ''dall-e'') (lit ''a cat''))) \<and>
   generateImageWithOpenAI example_builtins (answering 404 body_not_found)
     (lit ''sk-1'') (lit ''https://api.example/v1/'') (lit ''dall-e'') (lit ''a cat'')
   = (Inl (Error (lit ''[HTTP 404] model not found'')),
      map (image_request (lit ''sk-1'') (lit ''https://api.example/v1/''))
        (take 1 (image_bodies (lit ''dall-e'') (lit ''a cat'')))) \<and>
   generateImageWithOpenAI image_builtins (answering 200 body_image_url)
     (lit ''sk-1'') (lit ''https://api.example/v1/'') (lit ''dall-e'') (lit ''a cat'')
   = (Inr (JStr (lit ''https://img.example/2.png'')),
      map (image_request (lit ''sk-1'') (lit ''https://api.example/v1/''))
        (take 1 (image_bodies (lit ''dall-e'') (lit ''a cat'')))) \<and>
   generateImageWithOpenAI example_builtins
     (answering_variants (FetchResponse \<lparr>status = 400, body_text = body_error_code\<rparr>)
        (FetchThrows (lit ''socket hang up''))
        (FetchResponse \<lparr>status = 200, body_text = body_no_image\<rparr>))
     (lit ''sk-1'') (lit ''https://api.example/v1/'') (lit ''dall-e'') (lit ''a cat'')
   = (Inl (Error (lit ''[HTTP 400] socket hang up'')),
      map (image_request (lit ''sk-1'') (lit ''https://api.example/v1/''))
        (image_bodies (lit ''dall-e'') (lit ''a cat'')))"
proof -
  let ?net = "answering_variants (FetchResponse \<lparr>status = 400, body_text = body_error_code\<rparr>)
        (FetchThrows (lit ''socket hang up''))
        (FetchResponse \<lparr>status = 200, body_text = body_image_both\<rparr>)"
  let ?net4 = "answering_variants (FetchResponse \<lparr>status = 400, body_text = body_error_code\<rparr>)
        (FetchThrows (lit ''socket hang up''))
        (FetchResponse \<lparr>status = 200, body_text = body_no_image\<rparr>)"
  let ?mk = "image_request (lit ''sk-1'') (lit ''https://api.example/v1/'')"
  let ?bs = "image_bodies (lit ''dall-e'') (lit ''a cat'')"
  let ?r3 = "\<lparr>status = 200, body_text = body_image_both\<rparr>"
  let ?r4 = "\<lparr>status = 404, body_text = body_not_found\<rparr>"
  let ?r5 = "\<lparr>status = 200, body_text = body_image_url\<rparr>"
  let ?r6 = "\<lparr>status = 200, body_text = body_no_image\<rparr>"
  note T = image_adapter_behaviour [of "lit ''dall-e''" "lit ''a cat''" example_builtins ?net
        "lit ''sk-1''" "lit ''https://api.example/v1/''"]
  note T2 = image_adapter_behaviour [of "lit ''dall-e''" "lit ''a cat''" example_builtins
          "answering 404 body_not_found" "lit ''sk-1''" "lit ''https://api.example/v1/''"]
  note T3 = image_adapter_behaviour [of "lit ''dall-e''" "lit ''a cat''" image_builtins
          "answering 200 body_image_url" "lit ''sk-1''" "lit ''https://api.example/v1/''"]
  note T4 = image_adapter_behaviour [of "lit ''dall-e''" "lit ''a cat''" example_builtins ?net4
        "lit ''sk-1''" "lit ''https://api.example/v1/''"]
  have split3: "?bs = [?bs ! 0, ?bs ! 1] @ (?bs ! 2) # []"
    by (simp add: image_bodies_def)
  have n1: "?net (?mk (?bs ! 0)) = FetchResponse \<lparr>status = 400, body_text = body_error_code\<rparr>"
    and n2: "?net (?mk (?bs ! 1)) = FetchThrows (lit ''socket hang up'')"
    and n3: "?net (?mk (?bs ! 2)) = FetchResponse ?r3"
    by (simp_all add: answering_variants_def image_request_def image_bodies_def lit_def)
  have soft: "\<forall>b \<in> set [?bs ! 0, ?bs ! 1]. soft_failure example_builtins (?net (?mk b))"
    using n1 n2 by (simp add: soft_failure_def ok_def)
  have img: "read_image example_builtins ?r3 = Inr (Some (JStr (lit ''data:image/png;base64,QUJD'')))"
    using T [THEN conjunct2, THEN conjunct2, THEN conjunct2, THEN conjunct2, THEN conjunct2,
        THEN conjunct2, THEN conjunct1, rule_format,
        of ?r3 "JObj [(lit ''data'',
               JArr [JObj [(lit ''b64_json'', JStr (lit ''QUJD'')),
                           (lit ''url'', JStr (lit ''https://img.example/1.png''))]])]"
           "JArr [JObj [(lit ''b64_json'', JStr (lit ''QUJD'')),
                           (lit ''url'', JStr (lit ''https://img.example/1.png''))]]"
           "JObj [(lit ''b64_json'', JStr (lit ''QUJD'')),
                           (lit ''url'', JStr (lit ''https://img.example/1.png''))]"
           "JStr (lit ''QUJD'')"]
    by (simp add: example_defs get_prop_def get_index0_def interp_def lit_def)
  have ok3: "ok ?r3" by (simp add: ok_def)
  have e1: "generateImageWithOpenAI example_builtins ?net
     (lit ''sk-1'') (lit ''https://api.example/v1/'') (lit ''dall-e'') (lit ''a cat'')
   = (Inr (JStr (lit ''data:image/png;base64,QUJD'')), map ?mk ?bs)"
    using T [THEN conjunct1, rule_format,
        THEN conjunct1, rule_format, OF conjI [OF split3 soft] conjI [OF n3 conjI [OF ok3 img]]]
    by (simp add: image_bodies_def)
  have split1: "?bs = [] @ (?bs ! 0) # [?bs ! 1, ?bs ! 2]"
    by (simp add: image_bodies_def)
  have msg: "image_error_message example_builtins (lit ''dall-e'')
      \<lparr>lastError = Some body_not_found, lastStatus = 404\<rparr> = JStr (lit ''model not found'')"
    by (simp add: image_error_message_def example_defs get_prop_def mentions_openai_error_def
          lit_def)
  have e2: "generateImageWithOpenAI example_builtins (answering 404 body_not_found)
     (lit ''sk-1'') (lit ''https://api.example/v1/'') (lit ''dall-e'') (lit ''a cat'')
   = (Inl (Error (lit ''[HTTP 404] model not found'')), map ?mk (take 1 ?bs))"
  proof -
    have "generateImageWithOpenAI example_builtins (answering 404 body_not_found)
       (lit ''sk-1'') (lit ''https://api.example/v1/'') (lit ''dall-e'') (lit ''a cat'')
     = (Inl (Error (lit ''[HTTP '' @ digits 404 @ lit ''] ''
                      @ interp example_builtins (image_error_message example_builtins (lit ''dall-e'')
                          \<lparr>lastError = Some body_not_found, lastStatus = 404\<rparr>))),
               map ?mk ([] @ [?bs ! 0]))"
    proof -
      have soft0: "\<forall>b \<in> set []. soft_failure example_builtins
          (answering 404 body_not_found (?mk b))"
        by simp
      have n4: "answering 404 body_not_found (?mk (?bs ! 0)) = FetchResponse ?r4"
        by (simp add: answering_def)
      have st4: "status ?r4 = 401 \<or> status ?r4 = 404"
        by simp
      show ?thesis
        using T2 [THEN conjunct1, rule_format, THEN conjunct2, rule_format,
          OF conjI [OF split1 soft0] conjI [OF n4 st4]]
        by simp
    qed
    then show ?thesis
      unfolding msg by (simp add: interp_def digits.simps image_bodies_def lit_def)
  qed
  have img5: "read_image image_builtins ?r5 = Inr (Some (JStr (lit ''https://img.example/2.png'')))"
    using T3 [THEN conjunct2, THEN conjunct2, THEN conjunct2, THEN conjunct2, THEN conjunct2,
        THEN conjunct2, THEN conjunct2, THEN conjunct1, rule_format,
        of ?r5 "JObj [(lit ''data'',
                   JArr [JObj [(lit ''url'', JStr (lit ''https://img.example/2.png''))]])]"
           "JArr [JObj [(lit ''url'', JStr (lit ''https://img.example/2.png''))]]"
           "JObj [(lit ''url'', JStr (lit ''https://img.example/2.png''))]"
           JUndefined "JStr (lit ''https://img.example/2.png'')"]
    by (simp add: image_builtins_def body_image_url_def example_defs get_prop_def
          get_index0_def lit_def)
  have e3: "generateImageWithOpenAI image_builtins (answering 200 body_image_url)
     (lit ''sk-1'') (lit ''https://api.example/v1/'') (lit ''dall-e'') (lit ''a cat'')
   = (Inr (JStr (lit ''https://img.example/2.png'')), map ?mk (take 1 ?bs))"
  proof -
    have soft0: "\<forall>b \<in> set []. soft_failure image_builtins
        (answering 200 body_image_url (?mk b))"
      by simp
    have n5: "answering 200 body_image_url (?mk (?bs ! 0)) = FetchResponse ?r5"
      by (simp add: answering_def)
    have ok5: "ok ?r5" by (simp add: ok_def)
    show ?thesis
      using T3 [THEN conjunct1, rule_format, THEN conjunct1, rule_format,
          OF conjI [OF split1 soft0] conjI [OF n5 conjI [OF ok5 img5]]]
      by (simp add: image_bodies_def)
  qed
  have img6: "read_image example_builtins ?r6 = Inr None"
    using T4 [THEN conjunct2, THEN conjunct2, THEN conjunct2, THEN conjunct2, THEN conjunct2,
        THEN conjunct1, rule_format,
        of ?r6 "JObj [(lit ''data'', JArr [])]" "JArr []" JUndefined]
    by (simp add: example_defs get_prop_def get_index0_def lit_def)
  have m1: "?net4 (?mk (?bs ! 0)) = FetchResponse \<lparr>status = 400, body_text = body_error_code\<rparr>"
    and m2: "?net4 (?mk (?bs ! 1)) = FetchThrows (lit ''socket hang up'')"
    and m3: "?net4 (?mk (?bs ! 2)) = FetchResponse ?r6"
    by (simp_all add: answering_variants_def image_request_def image_bodies_def lit_def)
  have bs3: "?bs = [?bs ! 0, ?bs ! 1, ?bs ! 2]"
    by (simp add: image_bodies_def)
  have soft4: "\<forall>b \<in> set ?bs. soft_failure example_builtins (?net4 (?mk b))"
  proof -
    have "\<forall>b \<in> set [?bs ! 0, ?bs ! 1, ?bs ! 2]. soft_failure example_builtins (?net4 (?mk b))"
      using m1 m2 m3 img6 by (simp add: soft_failure_def ok_def)
    with bs3 show ?thesis by simp
  qed
  have outs: "map (\<lambda>b. ?net4 (?mk b)) ?bs =
      [FetchResponse \<lparr>status = 400, body_text = body_error_code\<rparr>,
       FetchThrows (lit ''socket hang up''), FetchResponse ?r6]"
  proof -
    have "map (\<lambda>b. ?net4 (?mk b)) [?bs ! 0, ?bs ! 1, ?bs ! 2] =
      [FetchResponse \<lparr>status = 400, body_text = body_error_code\<rparr>,
       FetchThrows (lit ''socket hang up''), FetchResponse ?r6]"
      using m1 m2 m3 by simp
    with bs3 show ?thesis by simp
  qed
  have fs: "failure_statuses (map (\<lambda>b. ?net4 (?mk b)) ?bs) = [400]"
    unfolding outs by (simp add: failure_statuses_def ok_def)
  have fm: "failure_messages example_builtins (map (\<lambda>b. ?net4 (?mk b)) ?bs) =
      [body_error_code, lit ''socket hang up'']"
    unfolding outs by (simp add: failure_messages_def ok_def img6)
  have msg4: "image_error_message example_builtins (lit ''dall-e'')
      \<lparr>lastError = Some (lit ''socket hang up''), lastStatus = 400\<rparr> =
        JStr (lit ''socket hang up'')"
    by (simp add: image_error_message_def example_defs lit_def)
  have e4: "generateImageWithOpenAI example_builtins ?net4
     (lit ''sk-1'') (lit ''https://api.example/v1/'') (lit ''dall-e'') (lit ''a cat'')
   = (Inl (Error (lit ''[HTTP 400] socket hang up'')), map ?mk ?bs)"
  proof -
    have "generateImageWithOpenAI example_builtins ?net4
       (lit ''sk-1'') (lit ''https://api.example/v1/'') (lit ''dall-e'') (lit ''a cat'')
     = (Inl (Error (lit ''[HTTP '' @ digits 400 @ lit ''] ''
                      @ interp example_builtins (image_error_message example_builtins (lit ''dall-e'')
                          \<lparr>lastError = Some (lit ''socket hang up''), lastStatus = 400\<rparr>))),
        map ?mk ?bs)"
      using T4 [THEN conjunct2, THEN conjunct1, THEN mp, OF soft4]
      unfolding fs fm by simp
    then show ?thesis
      unfolding msg4 by (simp add: interp_def digits.simps lit_def)
  qed
  from e1 e2 e3 e4 show ?thesis by simp
qed

text \<open>
  The claim as stated has the adapter stop at the first body that returns HTTP success:
  here the first answer is a 200 without an image, and the second body is sent as well.
\<close>

theorem image_adapter_counterexample:
  "generateImageWithOpenAI example_builtins
     (answering_variants (FetchResponse \<lparr>status = 200, body_text = body_no_image\<rparr>)
        (FetchResponse \<lparr>status = 200, body_text = body_image_both\<rparr>)
        (FetchThrows (lit ''socket hang up'')))
     (lit ''sk-1'') (lit ''https://api.example/v1/'') (lit ''dall-e'') (lit ''a cat'')
   = (Inr (JStr (lit ''data:image/png;base64,QUJD'')),
      map (image_request (lit ''sk-1'') (lit ''https://api.example/v1/''))
        (take 2 (image_bodies (lit ''dall-e'') (lit ''a cat''))))"
  by (simp add: generateImageWithOpenAI_def image_bodies_def image_attempt_def read_image_def
        answering_variants_def image_request_def ok_def example_defs get_prop_def get_index0_def
        interp_def lit_def)

subsection \<open>Sticker directives\<close>









subsection \<open>Multi-message replies\<close>












subsection \<open>The vision description in the prompt\<close>

lemma with_action_length: "length (with_action mode description entries) = length entries"
  by (auto simp: with_action_def split: option.splits list.splits)

text \<open>
  C5 (as amended). When a non-empty vision description exists, the list handed to the
  provider ends with a note that quotes it, on both paths, after one entry for each row
  of the history: on the OpenAI-compatible path the note is a message of role \<open>system\<close>
  (the list starts with the system prompt), on the Gemini path it is a turn of role
  \<open>user\<close> and the system instruction is the composed prompt alone.
\<close>

theorem vision_description_in_prompt:
  "imageDescription \<noteq> [] \<Longrightarrow>
   (setting tenv ''chat_api_url'' \<noteq> [] \<and> setting tenv ''chat_api_key'' \<noteq> [] \<longrightarrow>
      (\<exists>entries.
         generate_text tenv mode description imageDescription responder inserted =
           generateWithOpenAI (builtins tenv) (network tenv)
             (setting tenv ''chat_api_key'') (setting tenv ''chat_api_url'')
             (JStr (or_default (settings tenv (lit ''chat_model'')) (lit ''gpt-3.5-turbo'')))
             (JArr (map turn_json
                (\<lparr>turn_role = lit ''system'', turn_text = system_prompt tenv responder\<rparr>
                 # entries
                 @ [\<lparr>turn_role = lit ''system'', turn_text = image_note imageDescription\<rparr>])))
             0.7 \<and>
         length entries = length (history_query tenv inserted))) \<and>
   (\<not> (setting tenv ''chat_api_url'' \<noteq> [] \<and> setting tenv ''chat_api_key'' \<noteq> []) \<longrightarrow>
      (\<exists>entries.
         generate_text tenv mode description imageDescription responder inserted =
           (case gemini tenv
                   \<lparr>g_model = lit ''gemini-3-flash-preview'',
                    g_contents =
                      entries
                      @ [\<lparr>turn_role = lit ''user'', turn_text = image_note imageDescription\<rparr>],
                    g_systemInstruction = system_prompt tenv responder,
                    g_temperature = 0.8\<rparr> of
              Inl e \<Rightarrow> Inl e
            | Inr t \<Rightarrow> Inr (JStr (if t = [] then lit ''...'' else t))) \<and>
         length entries = length (history_query tenv inserted))) \<and>
   image_note imageDescription =
     lit ''[User sent an image. Description: '' @ imageDescription @ lit '']''"
  by (auto simp: generate_text_def openai_messages_def gemini_chat_request_def Let_def
        image_note_def with_action_length)


theorem vision_description_in_prompt_witness:
  "(\<exists>entries.
      generate_text example_turn_env JUndefined None (lit ''a red bicycle'') bob [] =
        generateWithOpenAI example_builtins example_network (lit ''sk-1'')
          (lit ''https://api.example/v1'') (JStr (lit ''gpt-3.5-turbo''))
          (JArr (map turn_json
             (\<lparr>turn_role = lit ''system'', turn_text = lit ''You are roleplaying as Bob''\<rparr>
              # entries
              @ [\<lparr>turn_role = lit ''system'',
                   turn_text = lit ''[User sent an image. Description: a red bicycle]''\<rparr>])))
          0.7 \<and>
      length entries = 2) \<and>
   generate_text (example_turn_env\<lparr>settings := Map.empty\<rparr>) JUndefined None
       (lit ''a red bicycle'') bob [] =
     Inr (JStr (lit ''I see: [User sent an image. Description: a red bicycle]''))"
proof -
  have ne: "lit ''a red bicycle'' \<noteq> []" by (simp add: lit_def)
  have s1: "setting example_turn_env ''chat_api_url'' = lit ''https://api.example/v1''"
    and s2: "setting example_turn_env ''chat_api_key'' = lit ''sk-1''"
    and s3: "or_default (settings example_turn_env (lit ''chat_model'')) (lit ''gpt-3.5-turbo'')
        = lit ''gpt-3.5-turbo''"
    by (simp_all add: setting_def example_turn_env_def or_default_def lit_def)
  have s4: "setting (example_turn_env\<lparr>settings := Map.empty\<rparr>) ''chat_api_url'' = []"
    by (simp add: setting_def or_default_def)
  have h: "length (history_query example_turn_env []) = 2"
    "length (history_query (example_turn_env\<lparr>settings := Map.empty\<rparr>) []) = 2"
    by (simp_all add: example_turn_env_def example_history_def)
  have n: "image_note (lit ''a red bicycle'') = lit ''[User sent an image. Description: a red bicycle]''"
    by (simp add: image_note_def lit_def)
  have a: "\<exists>entries.
      generate_text example_turn_env JUndefined None (lit ''a red bicycle'') bob [] =
        generateWithOpenAI example_builtins example_network (lit ''sk-1'')
          (lit ''https://api.example/v1'') (JStr (lit ''gpt-3.5-turbo''))
          (JArr (map turn_json
             (\<lparr>turn_role = lit ''system'', turn_text = lit ''You are roleplaying as Bob''\<rparr>
              # entries
              @ [\<lparr>turn_role = lit ''system'',
                   turn_text = lit ''[User sent an image. Description: a red bicycle]''\<rparr>])))
          0.7 \<and>
      length entries = 2"
    using vision_description_in_prompt [OF ne, of example_turn_env JUndefined None bob "[]",
        THEN conjunct1] s1 s2
    unfolding s1 s2 s3 h n
    by (simp add: example_turn_env_def bob_def lit_def)
  have b: "generate_text (example_turn_env\<lparr>settings := Map.empty\<rparr>) JUndefined None
       (lit ''a red bicycle'') bob [] =
     Inr (JStr (lit ''I see: [User sent an image. Description: a red bicycle]''))"
    using vision_description_in_prompt [OF ne, of "example_turn_env\<lparr>settings := Map.empty\<rparr>"
        JUndefined None bob "[]", THEN conjunct2, THEN conjunct1] s4
    unfolding n
    by (auto simp: example_turn_env_def lit_def)
  from a b show ?thesis by blast
qed

text \<open>
  The claim as stated puts a system-role note on the Gemini path: the contents of the
  Gemini request have no system-role entry, the note is its last entry with role \<open>user\<close>,
  and the system instruction is unchanged.
\<close>

theorem vision_description_counterexample:
  "map turn_role
     (g_contents (gemini_chat_request JUndefined None (lit ''a red bicycle'')
        (lit ''You are roleplaying as Bob'') example_history))
     = [lit ''model'', lit ''user'', lit ''user''] \<and>
   last (g_contents (gemini_chat_request JUndefined None (lit ''a red bicycle'')
        (lit ''You are roleplaying as Bob'') example_history))
     = \<lparr>turn_role = lit ''user'',
        turn_text = lit ''[User sent an image. Description: a red bicycle]''\<rparr> \<and>
   g_systemInstruction (gemini_chat_request JUndefined None (lit ''a red bicycle'')
        (lit ''You are roleplaying as Bob'') example_history)
     = lit ''You are roleplaying as Bob''"
  by (simp add: gemini_chat_request_def with_action_def example_history_def image_note_def
        lit_def)


subsection \<open>A responder whose generation fails\<close>

lemma chat_loop_append:
  "chat_loop tenv mode description imageDescription (rs1 @ rs2) st =
     chat_loop tenv mode description imageDescription rs2
       (chat_loop tenv mode description imageDescription rs1 st)"
  by (induction rs1 arbitrary: st) simp_all

lemma respond_cong:
  "responses st = responses st' \<Longrightarrow> reads st = reads st' \<Longrightarrow>
   respond tenv mode description imageDescription r st =
     respond tenv mode description imageDescription r st'"
  by (simp add: respond_def split: sum.splits jsval.splits)

lemma chat_loop_cong:
  "responses st = responses st' \<Longrightarrow> reads st = reads st' \<Longrightarrow>
   responses (chat_loop tenv mode description imageDescription rs st) =
     responses (chat_loop tenv mode description imageDescription rs st') \<and>
   reads (chat_loop tenv mode description imageDescription rs st) =
     reads (chat_loop tenv mode description imageDescription rs st')"
proof (induction rs arbitrary: st st')
  case Nil
  then show ?case by simp
next
  case (Cons r rs)
  let ?step = "\<lambda>s. case respond tenv mode description imageDescription r s of
          Inl err \<Rightarrow> s\<lparr>logged := logged s @ [err]\<rparr>
        | Inr (frs, k) \<Rightarrow> s\<lparr>responses := responses s @ frs, reads := k\<rparr>"
  have "responses (?step st) = responses (?step st') \<and> reads (?step st) = reads (?step st')"
    using Cons.prems respond_cong [OF Cons.prems, of tenv mode description imageDescription r]
    by (auto split: sum.splits)
  then show ?case
    using Cons.IH [of "?step st" "?step st'"] by simp
qed

lemma chat_loop_grows:
  "prefix (responses st) (responses (chat_loop tenv mode description imageDescription rs st))"
proof (induction rs arbitrary: st)
  case Nil
  then show ?case by simp
next
  case (Cons r rs)
  let ?step = "case respond tenv mode description imageDescription r st of
          Inl err \<Rightarrow> st\<lparr>logged := logged st @ [err]\<rparr>
        | Inr (frs, k) \<Rightarrow> st\<lparr>responses := responses st @ frs, reads := k\<rparr>"
  have "prefix (responses st) (responses ?step)"
    by (auto split: sum.splits)
  with Cons.IH [of ?step] show ?case
    using prefix_order.order_trans by fastforce
qed

lemma chat_loop_logged:
  "prefix (logged st) (logged (chat_loop tenv mode description imageDescription rs st))"
proof (induction rs arbitrary: st)
  case Nil
  then show ?case by simp
next
  case (Cons r rs)
  let ?step = "case respond tenv mode description imageDescription r st of
          Inl err \<Rightarrow> st\<lparr>logged := logged st @ [err]\<rparr>
        | Inr (frs, k) \<Rightarrow> st\<lparr>responses := responses st @ frs, reads := k\<rparr>"
  have "prefix (logged st) (logged ?step)"
    by (auto split: sum.splits)
  with Cons.IH [of ?step] show ?case
    using prefix_order.order_trans by fastforce
qed

text \<open>
  C1. Let \<open>st\<close> be the state of the loop when it reaches the responder \<open>r\<close>, and let the
  generation for \<open>r\<close> throw \<open>e\<close>. Then the iteration for \<open>r\<close> changes nothing but the log,
  to which \<open>e\<close> is added: \<open>r\<close> contributes no fragment. The turn answers with status 200 and
  with exactly the fragments it would answer with if \<open>r\<close> were not among the responders;
  the fragments of the responders before \<open>r\<close> are among them. Every responder \<open>s\<close> of the
  turn whose generation and parsing succeed with the fragments \<open>frs\<close> adds exactly \<open>frs\<close>
  to the responses, and the answer of the turn begins with the answer of the
  responders before \<open>s\<close> followed by \<open>frs\<close>. In general the answer to a list of responders
  followed by \<open>s\<close> is the answer to the list followed by the fragments of \<open>s\<close>, or by
  nothing when \<open>s\<close> has thrown.
\<close>

theorem failed_responder_is_skipped:
  "st = chat_loop tenv mode description imageDescription pre
          \<lparr>responses = [], reads = 0, logged = []\<rparr> \<Longrightarrow>
   generate_text tenv mode description imageDescription r (responses st) = Inl e \<Longrightarrow>
   chat_loop tenv mode description imageDescription [r] st = st\<lparr>logged := logged st @ [e]\<rparr> \<and>
   e \<in> set (logged (chat_loop tenv mode description imageDescription (pre @ r # post)
                       \<lparr>responses = [], reads = 0, logged = []\<rparr>)) \<and>
   post_chat tenv mode description imageDescription (pre @ r # post) =
     post_chat tenv mode description imageDescription (pre @ post) \<and>
   fst (post_chat tenv mode description imageDescription (pre @ r # post)) = 200 \<and>
   prefix (responses st) (snd (post_chat tenv mode description imageDescription (pre @ r # post))) \<and>
   (\<forall>pre' s post' frs k.
      pre @ r # post = pre' @ s # post' \<and>
      respond tenv mode description imageDescription s
        (chat_loop tenv mode description imageDescription pre'
           \<lparr>responses = [], reads = 0, logged = []\<rparr>) = Inr (frs, k) \<longrightarrow>
      chat_loop tenv mode description imageDescription [s]
        (chat_loop tenv mode description imageDescription pre'
           \<lparr>responses = [], reads = 0, logged = []\<rparr>) =
        (chat_loop tenv mode description imageDescription pre'
           \<lparr>responses = [], reads = 0, logged = []\<rparr>)
          \<lparr>responses := responses (chat_loop tenv mode description imageDescription pre'
                                    \<lparr>responses = [], reads = 0, logged = []\<rparr>) @ frs,
           reads := k\<rparr> \<and>
      prefix (snd (post_chat tenv mode description imageDescription pre') @ frs)
        (snd (post_chat tenv mode description imageDescription (pre @ r # post)))) \<and>
   (\<forall>rs s. snd (post_chat tenv mode description imageDescription (rs @ [s])) =
      snd (post_chat tenv mode description imageDescription rs) @
      (case respond tenv mode description imageDescription s
              (chat_loop tenv mode description imageDescription rs
                 \<lparr>responses = [], reads = 0, logged = []\<rparr>) of
         Inl err \<Rightarrow> []
       | Inr (frs, k) \<Rightarrow> frs))"
proof -
  let ?init = "\<lparr>responses = [], reads = 0, logged = []\<rparr> :: chat_state"
  let ?loop = "chat_loop tenv mode description imageDescription"
  let ?respond = "respond tenv mode description imageDescription"
  let ?post = "post_chat tenv mode description imageDescription"
  assume st: "st = ?loop pre ?init"
    and gen: "generate_text tenv mode description imageDescription r (responses st) = Inl e"
  from gen have resp: "?respond r st = Inl e"
    by (simp add: respond_def)
  then have one: "?loop [r] st = st\<lparr>logged := logged st @ [e]\<rparr>"
    by simp
  have full: "?loop (pre @ r # post) ?init = ?loop post (st\<lparr>logged := logged st @ [e]\<rparr>)"
    using resp by (simp add: chat_loop_append st [symmetric])
  have without: "?loop (pre @ post) ?init = ?loop post st"
    by (simp add: chat_loop_append st [symmetric])
  have "e \<in> set (logged (st\<lparr>logged := logged st @ [e]\<rparr>))" by simp
  then have log: "e \<in> set (logged (?loop (pre @ r # post) ?init))"
    using chat_loop_logged [of "st\<lparr>logged := logged st @ [e]\<rparr>" tenv mode description
        imageDescription post]
    unfolding full by (auto dest: set_mono_prefix)
  have same: "responses (?loop (pre @ r # post) ?init) = responses (?loop (pre @ post) ?init)"
    unfolding full without
    using chat_loop_cong [of "st\<lparr>logged := logged st @ [e]\<rparr>" st tenv mode description
        imageDescription post]
    by simp
  have grows: "prefix (responses st) (responses (?loop (pre @ r # post) ?init))"
    unfolding same without by (rule chat_loop_grows)
  have others: "?loop [s] (?loop pre' ?init) =
        (?loop pre' ?init)\<lparr>responses := responses (?loop pre' ?init) @ frs, reads := k\<rparr> \<and>
      prefix (snd (?post pre') @ frs) (snd (?post (pre @ r # post)))"
    if h: "pre @ r # post = pre' @ s # post' \<and> ?respond s (?loop pre' ?init) = Inr (frs, k)"
    for pre' s post' frs k
  proof -
    from h have eq: "pre @ r # post = pre' @ s # post'"
      and ok: "?respond s (?loop pre' ?init) = Inr (frs, k)" by blast+
    let ?st' = "?loop pre' ?init"
    from ok have step: "?loop [s] ?st' = ?st'\<lparr>responses := responses ?st' @ frs, reads := k\<rparr>"
      by simp
    have "?loop (pre' @ s # post') ?init = ?loop post' (?loop [s] ?st')"
      by (simp add: chat_loop_append)
    then have "prefix (responses (?loop [s] ?st')) (responses (?loop (pre' @ s # post') ?init))"
      by (simp only: chat_loop_grows)
    then have "prefix (responses ?st' @ frs) (responses (?loop (pre @ r # post) ?init))"
      unfolding step eq by simp
    with step show ?thesis by (simp add: post_chat_def)
  qed
  have snoc: "snd (?post (rs @ [s])) = snd (?post rs) @
      (case ?respond s (?loop rs ?init) of Inl err \<Rightarrow> [] | Inr (frs, k) \<Rightarrow> frs)" for rs s
    by (simp add: post_chat_def chat_loop_append split: sum.splits)
  from one log same grows have first: "?loop [r] st = st\<lparr>logged := logged st @ [e]\<rparr> \<and>
     e \<in> set (logged (?loop (pre @ r # post) ?init)) \<and>
     ?post (pre @ r # post) = ?post (pre @ post) \<and>
     fst (?post (pre @ r # post)) = 200 \<and>
     prefix (responses st) (snd (?post (pre @ r # post)))"
    by (simp add: post_chat_def)
  from first others snoc show ?thesis by blast
qed

lemmas turn_defs = generate_text_def openai_messages_def with_action_def image_note_def
  setting_def or_default_def turn_json_def generateWithOpenAI_def chat_completion_request_def
  strip_trailing_slashes_def openai_content_def openai_error_message_def get_prop_def
  get_index0_def interp_def ok_def example_turn_env_def example_network_def
  example_history_def

lemmas parse_defs = parse_reply_def clean_text_def strip_bracket_prefix_def scenario_split_def
  parse_dialogue_def messageParts_def NEXT_def emit_part_def image_step_def sticker_step_def
  js_trim_def js_space_def sticker_opener_def image_opener_def example_env_def
  strip_literal_name_def

lemma example_generate:
  "generate_text example_turn_env JUndefined None (lit ''a red bicycle'') alice inserted
     = Inr (JStr (lit ''hello''))"
  "generate_text example_turn_env JUndefined None (lit ''a red bicycle'') bob inserted
     = Inl (Error (lit ''[HTTP 404] model not found''))"
  "generate_text example_turn_env JUndefined None (lit ''a red bicycle'') carol inserted
     = Inr (JStr (lit ''hello''))"
  by (simp_all add: turn_defs example_defs alice_def bob_def carol_def digits.simps lit_def)

lemma example_parse:
  "parse_reply example_env r JUndefined k (lit ''hello'') =
     (if prefix (name r) (lit ''hello'') then parse_reply example_env r JUndefined k (lit ''hello'')
      else Inr ([fragment_of r (lit ''hello'') TextMsg (1000000 + int k)], Suc k))"
  by (simp add: parse_defs Let_def lit_def)

theorem failed_responder_is_skipped_witness:
  "post_chat example_turn_env JUndefined None (lit ''a red bicycle'') [alice, bob, carol] =
     (200, [fragment_of alice (lit ''hello'') TextMsg 1000000,
            fragment_of carol (lit ''hello'') TextMsg 1000001]) \<and>
   Error (lit ''[HTTP 404] model not found'') \<in>
     set (logged (chat_loop example_turn_env JUndefined None (lit ''a red bicycle'')
            [alice, bob, carol] \<lparr>responses = [], reads = 0, logged = []\<rparr>)) \<and>
   prefix ([fragment_of alice (lit ''hello'') TextMsg 1000000] @
           [fragment_of carol (lit ''hello'') TextMsg 1000001])
     (snd (post_chat example_turn_env JUndefined None (lit ''a red bicycle'')
             [alice, bob, carol]))"
proof -
  let ?loop = "chat_loop example_turn_env JUndefined None (lit ''a red bicycle'')"
  let ?respond = "respond example_turn_env JUndefined None (lit ''a red bicycle'')"
  let ?init = "\<lparr>responses = [], reads = 0, logged = []\<rparr> :: chat_state"
  have pa: "parse_reply example_env alice JUndefined k (lit ''hello'') =
      Inr ([fragment_of alice (lit ''hello'') TextMsg (1000000 + int k)], Suc k)" for k
    using example_parse [of alice k] by (simp add: alice_def lit_def)
  have pc: "parse_reply example_env carol JUndefined k (lit ''hello'') =
      Inr ([fragment_of carol (lit ''hello'') TextMsg (1000000 + int k)], Suc k)" for k
    using example_parse [of carol k] by (simp add: carol_def lit_def)
  have par: "parser example_turn_env = example_env"
    by (simp add: example_turn_env_def)
  have st: "?loop [alice] ?init =
      \<lparr>responses = [fragment_of alice (lit ''hello'') TextMsg 1000000], reads = 1, logged = []\<rparr>"
    by (simp add: respond_def example_generate par pa)
  have st2: "?loop [alice, bob] ?init =
      \<lparr>responses = [fragment_of alice (lit ''hello'') TextMsg 1000000], reads = 1,
       logged = [Error (lit ''[HTTP 404] model not found'')]\<rparr>"
    by (simp add: respond_def example_generate par pa)
  have rc: "?respond carol (?loop [alice, bob] ?init) =
      Inr ([fragment_of carol (lit ''hello'') TextMsg 1000001], 2)"
    unfolding st2 by (simp add: respond_def example_generate par pc)
  have without: "post_chat example_turn_env JUndefined None (lit ''a red bicycle'') [alice, carol] =
     (200, [fragment_of alice (lit ''hello'') TextMsg 1000000,
            fragment_of carol (lit ''hello'') TextMsg 1000001])"
    by (simp add: post_chat_def respond_def example_generate par pa pc)
  note T = failed_responder_is_skipped [OF st [symmetric] example_generate(2), of "[carol]"]
  have eq: "[alice] @ bob # [carol] = [alice, bob] @ carol # []" by simp
  note P = T [THEN conjunct2, THEN conjunct2, THEN conjunct2, THEN conjunct2, THEN conjunct2,
      THEN conjunct1, rule_format, OF conjI [OF eq rc], THEN conjunct2]
  have pc2: "snd (post_chat example_turn_env JUndefined None (lit ''a red bicycle'') [alice, bob])
      = [fragment_of alice (lit ''hello'') TextMsg 1000000]"
    by (simp add: post_chat_def st2 del: chat_loop.simps)
  from T without P show ?thesis unfolding pc2 by simp
qed

subsection \<open>The settings store\<close>

lemma post_settings_foldl:
  "post_settings bind_other b t =
     (let st = foldl (\<lambda>st (n, f). run_if_defined bind_other n (f b) st) (t, None) settings_fields
      in (fst st, if snd st = None then 200 else 500))"
  by (simp add: post_settings_def settings_fields_def Let_def)

lemma foldl_after_throw:
  "foldl (\<lambda>st (n, f). run_if_defined bind_other n (f b) st) (t, Some e) fs = (t, Some e)"
  by (induction fs) (simp_all add: run_if_defined_def split: prod.splits)

lemma field_of_Cons:
  "field_of ((n, f) # fs) b k = (if k = lit n then f b else field_of fs b k)"
  by (simp add: field_of_def)

lemma field_of_notin:
  "k \<notin> (\<lambda>(n, f). lit n) ` set fs \<Longrightarrow> field_of fs b k = JUndefined"
proof -
  assume "k \<notin> (\<lambda>(n, f). lit n) ` set fs"
  then have "map_of (map (\<lambda>(n, f). (lit n, f)) fs) k = None"
    by (force simp: map_of_eq_None_iff image_iff)
  then show ?thesis by (simp add: field_of_def)
qed

lemma foldl_all_bindable:
  "distinct (map (\<lambda>(n, f). lit n) fs) \<Longrightarrow>
   \<forall>(n, f) \<in> set fs. bindable bind_other (f b) \<Longrightarrow>
   snd (foldl (\<lambda>st (n, f). run_if_defined bind_other n (f b) st) (t, None) fs) = None \<and>
   (\<forall>k. fst (foldl (\<lambda>st (n, f). run_if_defined bind_other n (f b) st) (t, None) fs) k =
      (if field_of fs b k = JUndefined then t k
       else (case stmt_bind bind_other (field_of fs b k) of Inl e \<Rightarrow> t k | Inr x \<Rightarrow> Some x)))"
proof (induction fs arbitrary: t)
  case Nil
  then show ?case by (simp add: field_of_def)
next
  case (Cons p fs)
  obtain n f where p: "p = (n, f)" by (cases p)
  from Cons.prems p have notin: "lit n \<notin> (\<lambda>(n, f). lit n) ` set fs"
    and dist: "distinct (map (\<lambda>(n, f). lit n) fs)"
    and bf: "bindable bind_other (f b)"
    and rest: "\<forall>(n, f) \<in> set fs. bindable bind_other (f b)" by auto
  note undef = field_of_notin [OF notin, of b]
  let ?F = "\<lambda>st (n, f). run_if_defined bind_other n (f b) st"
  have fold: "foldl ?F (t, None) (p # fs) = foldl ?F (run_if_defined bind_other n (f b) (t, None)) fs"
    by (simp add: p)
  show ?case
  proof (cases "f b = JUndefined")
    case True
    then have step: "run_if_defined bind_other n (f b) (t, None) = (t, None)"
      by (simp add: run_if_defined_def)
    show ?thesis
      unfolding fold step
      using Cons.IH [OF dist rest, of t] undef True
      by (simp add: p field_of_Cons)
  next
    case False
    with bf obtain x where x: "stmt_bind bind_other (f b) = Inr x"
      by (auto simp: bindable_def)
    with False have step: "run_if_defined bind_other n (f b) (t, None) = (t(lit n \<mapsto> x), None)"
      by (simp add: run_if_defined_def)
    let ?t' = "t(lit n \<mapsto> x)"
    note IH = Cons.IH [OF dist rest, of ?t']
    show ?thesis
      unfolding fold step
    proof (intro conjI allI)
      show "snd (foldl ?F (?t', None) fs) = None"
        using IH by blast
    next
      fix k
      from IH have "fst (foldl ?F (?t', None) fs) k =
          (if field_of fs b k = JUndefined then ?t' k
           else (case stmt_bind bind_other (field_of fs b k) of Inl e \<Rightarrow> ?t' k | Inr x \<Rightarrow> Some x))"
        by blast
      then show "fst (foldl ?F (?t', None) fs) k =
          (if field_of (p # fs) b k = JUndefined then t k
           else (case stmt_bind bind_other (field_of (p # fs) b k) of
                   Inl e \<Rightarrow> t k | Inr x \<Rightarrow> Some x))"
        using undef False x
        by (cases "k = lit n") (simp_all add: p field_of_Cons split: sum.splits)
    qed
  qed
qed

lemma foldl_first_throw:
  "distinct (map (\<lambda>(n, f). lit n) pre) \<Longrightarrow>
   \<forall>(n, f) \<in> set pre. bindable bind_other (f b) \<Longrightarrow>
   g (b :: settings_body) \<noteq> JUndefined \<Longrightarrow> stmt_bind bind_other (g b) = Inl e \<Longrightarrow>
   foldl (\<lambda>st (n, f). run_if_defined bind_other n (f b) st) (t, None) (pre @ (m, g) # post) =
     (fst (foldl (\<lambda>st (n, f). run_if_defined bind_other n (f b) st) (t, None) pre), Some e)"
proof -
  assume d: "distinct (map (\<lambda>(n, f). lit n) pre)"
    and ok: "\<forall>(n, f) \<in> set pre. bindable bind_other (f b)"
    and g: "g b \<noteq> JUndefined" "stmt_bind bind_other (g b) = Inl e"
  let ?F = "\<lambda>st (n, f). run_if_defined bind_other n (f b) st"
  from foldl_all_bindable [OF d ok, of t] have "snd (foldl ?F (t, None) pre) = None" by blast
  then obtain t' where st: "foldl ?F (t, None) pre = (t', None)"
    by (cases "foldl ?F (t, None) pre") simp
  have "run_if_defined bind_other m (g b) (t', None) = (t', Some e)"
    using g by (simp add: run_if_defined_def)
  then show ?thesis
    unfolding foldl_append st by (simp add: foldl_after_throw)
qed

lemma foldl_frame:
  "distinct (map (\<lambda>(n, f). lit n) fs) \<Longrightarrow> field_of fs b k = JUndefined \<Longrightarrow>
   fst (foldl (\<lambda>st (n, f). run_if_defined bind_other n (f b) st) st fs) k = fst st k"
proof (induction fs arbitrary: st)
  case Nil
  then show ?case by simp
next
  case (Cons p fs)
  obtain n f where p: "p = (n, f)" by (cases p)
  from Cons.prems p have notin: "lit n \<notin> (\<lambda>(n, f). lit n) ` set fs"
    and dist: "distinct (map (\<lambda>(n, f). lit n) fs)" by auto
  have rest: "field_of fs b k = JUndefined"
  proof (cases "k = lit n")
    case True
    then show ?thesis using field_of_notin [OF notin, of b] by simp
  next
    case False
    then show ?thesis using Cons.prems(2) by (simp add: p field_of_Cons)
  qed
  have step: "fst (run_if_defined bind_other n (f b) st) k = fst st k"
  proof (cases "k = lit n")
    case True
    with Cons.prems(2) have "f b = JUndefined" by (simp add: p field_of_Cons)
    then show ?thesis by (simp add: run_if_defined_def split: option.splits)
  next
    case False
    then show ?thesis by (simp add: run_if_defined_def split: option.splits sum.splits)
  qed
  show ?case
    using Cons.IH [OF dist rest, of "run_if_defined bind_other n (f b) st"] step
    by (simp add: p)
qed

lemma settings_fields_distinct: "distinct (map (\<lambda>(n, f). lit n) settings_fields)"
  by (simp add: settings_fields_def lit_def)

lemma distinct_prefix_fields:
  "settings_fields = pre @ rest \<Longrightarrow> distinct (map (\<lambda>(n, f). lit n) pre)"
proof -
  assume e: "settings_fields = pre @ rest"
  show ?thesis using settings_fields_distinct unfolding e by simp
qed

lemma run_if_defined_simps:
  "run_if_defined bo key JUndefined st = st"
  "run_if_defined bo key v (t, Some e) = (t, Some e)"
  "run_if_defined bo key (JStr s) (t, None) = (t(lit key \<mapsto> SqlText s), None)"
  "run_if_defined bo key JNull (t, None) = (t(lit key \<mapsto> SqlNull), None)"
  "run_if_defined refusing_bind key (JBool c) (t, None) = (t, Some TypeError)"
  by (simp_all add: run_if_defined_def stmt_bind_def refusing_bind_def split: option.splits)

lemmas body_eval = no_settings_def example_settings_def boolean_settings_def
  boolean_first_settings_def

lemmas field_eval = body_field_def field_of_def settings_fields_def body_eval lit_def

text \<open>
  C10. POST /api/settings. A settings key whose body field is undefined (or that is none
  of the fourteen) keeps its row, whatever the request. When every defined field can be
  bound (a string and \<open>null\<close> always can), the answer is 200 and every key named by a
  defined field holds the bound value of that field. When the statement of a defined
  field throws, and the fields before it could be bound, the answer is 500, the keys of
  the defined fields before it hold their bound values and every other key, also the
  key of a defined field after it, keeps its row.
\<close>

theorem post_settings_writes:
  "(\<forall>k. body_field b k = JUndefined \<longrightarrow> fst (post_settings bind_other b t) k = t k) \<and>
   ((\<forall>(n, f) \<in> set settings_fields. bindable bind_other (f b)) \<longrightarrow>
      snd (post_settings bind_other b t) = 200 \<and>
      (\<forall>k. body_field b k \<noteq> JUndefined \<longrightarrow>
         (\<exists>x. stmt_bind bind_other (body_field b k) = Inr x \<and>
              fst (post_settings bind_other b t) k = Some x))) \<and>
   (\<forall>pre m g post e.
      settings_fields = pre @ (m, g) # post \<and>
      (\<forall>(n, f) \<in> set pre. bindable bind_other (f b)) \<and>
      g b \<noteq> JUndefined \<and> stmt_bind bind_other (g b) = Inl e \<longrightarrow>
      snd (post_settings bind_other b t) = 500 \<and>
      (\<forall>k. fst (post_settings bind_other b t) k =
         (if field_of pre b k = JUndefined then t k
          else (case stmt_bind bind_other (field_of pre b k) of
                  Inl e' \<Rightarrow> t k | Inr x \<Rightarrow> Some x)))) \<and>
   (\<forall>s. stmt_bind bind_other (JStr s) = Inr (SqlText s)) \<and>
   stmt_bind bind_other JNull = Inr SqlNull"
proof (intro conjI allI impI)
  fix k
  assume "body_field b k = JUndefined"
  then show "fst (post_settings bind_other b t) k = t k"
    using foldl_frame [OF settings_fields_distinct, where st = "(t, None)" and bind_other = bind_other and b = b and k = k]
    by (simp add: post_settings_foldl body_field_def Let_def)
next
  assume ok: "\<forall>(n, f) \<in> set settings_fields. bindable bind_other (f b)"
  note all = foldl_all_bindable [OF settings_fields_distinct ok, of t]
  from all show "snd (post_settings bind_other b t) = 200"
    by (simp add: post_settings_foldl Let_def)
  fix k
  assume def: "body_field b k \<noteq> JUndefined"
  then obtain n f where nf: "(n, f) \<in> set settings_fields" and fb: "f b = body_field b k"
    by (auto simp: body_field_def field_of_def split: option.splits dest!: map_of_SomeD)
  from ok nf have "bindable bind_other (f b)" by auto
  with def fb obtain x where x: "stmt_bind bind_other (body_field b k) = Inr x"
    by (auto simp: bindable_def)
  from all have "fst (post_settings bind_other b t) k = Some x"
    using def x by (simp add: post_settings_foldl Let_def body_field_def)
  with x show "\<exists>x. stmt_bind bind_other (body_field b k) = Inr x \<and>
                  fst (post_settings bind_other b t) k = Some x" by blast
next
  fix pre m g post e
  assume h: "settings_fields = pre @ (m, g) # post \<and>
             (\<forall>(n, f) \<in> set pre. bindable bind_other (f b)) \<and>
             g b \<noteq> JUndefined \<and> stmt_bind bind_other (g b) = Inl e"
  then have sf: "settings_fields = pre @ (m, g) # post"
    and ok: "\<forall>(n, f) \<in> set pre. bindable bind_other (f b)"
    and g: "g b \<noteq> JUndefined" "stmt_bind bind_other (g b) = Inl e" by blast+
  note d = distinct_prefix_fields [OF sf]
  note thr = foldl_first_throw [where g = g and b = b and pre = pre and bind_other = bind_other
      and e = e and t = t and m = m and post = post, OF d ok g]
  show "snd (post_settings bind_other b t) = 500"
    unfolding post_settings_foldl sf thr by (simp add: Let_def)
  fix k
  show "fst (post_settings bind_other b t) k =
         (if field_of pre b k = JUndefined then t k
          else (case stmt_bind bind_other (field_of pre b k) of
                  Inl e' \<Rightarrow> t k | Inr x \<Rightarrow> Some x))"
    unfolding post_settings_foldl sf thr
    using foldl_all_bindable [OF d ok, of t] by (simp add: Let_def)
next
  fix s
  show "stmt_bind bind_other (JStr s) = Inr (SqlText s)" by (simp add: stmt_bind_def)
next
  show "stmt_bind bind_other JNull = Inr SqlNull" by (simp add: stmt_bind_def)
qed

theorem post_settings_writes_witness:
  "fst (post_settings refusing_bind example_settings stored_settings) (lit ''user_bio'') =
     Some (SqlText (lit ''bio'')) \<and>
   fst (post_settings refusing_bind example_settings stored_settings) (lit ''theme'') = None \<and>
   snd (post_settings refusing_bind example_settings stored_settings) = 200 \<and>
   fst (post_settings refusing_bind example_settings stored_settings) (lit ''chat_model'') =
     Some (SqlText (lit ''gpt-4o'')) \<and>
   fst (post_settings refusing_bind example_settings stored_settings) (lit ''user_name'') =
     Some SqlNull \<and>
   snd (post_settings refusing_bind boolean_settings stored_settings) = 500 \<and>
   fst (post_settings refusing_bind boolean_settings stored_settings) (lit ''chat_api_url'') =
     Some (SqlText (lit ''https://api'')) \<and>
   fst (post_settings refusing_bind boolean_settings stored_settings) (lit ''chat_model'') =
     Some (SqlText (lit ''old''))"
proof -
  note a = post_settings_writes [of example_settings refusing_bind stored_settings]
  note b = post_settings_writes [of boolean_settings refusing_bind stored_settings]
  have ok: "\<forall>(n, f) \<in> set settings_fields. bindable refusing_bind (f example_settings)"
    by (simp add: settings_fields_def bindable_def stmt_bind_def body_eval)
  have u1: "body_field example_settings (lit ''user_bio'') = JUndefined"
    and u2: "body_field example_settings (lit ''theme'') = JUndefined"
    and d1: "body_field example_settings (lit ''chat_model'') = JStr (lit ''gpt-4o'')"
    and d2: "body_field example_settings (lit ''user_name'') = JNull"
    by (simp_all add: field_eval)
  have t1: "stored_settings (lit ''user_bio'') = Some (SqlText (lit ''bio''))"
    and t2: "stored_settings (lit ''theme'') = None"
    and t3: "stored_settings (lit ''chat_model'') = Some (SqlText (lit ''old''))"
    by (simp_all add: stored_settings_def lit_def)
  from a u1 t1 have c1: "fst (post_settings refusing_bind example_settings stored_settings)
      (lit ''user_bio'') = Some (SqlText (lit ''bio''))" by simp
  from a u2 t2 have c2: "fst (post_settings refusing_bind example_settings stored_settings)
      (lit ''theme'') = None" by simp
  from a ok have c3: "snd (post_settings refusing_bind example_settings stored_settings) = 200"
    by blast
  from a ok have w: "\<forall>k. body_field example_settings k \<noteq> JUndefined \<longrightarrow>
         (\<exists>x. stmt_bind refusing_bind (body_field example_settings k) = Inr x \<and>
              fst (post_settings refusing_bind example_settings stored_settings) k = Some x)"
    by blast
  from w [rule_format, of "lit ''chat_model''"] d1
  have c4: "fst (post_settings refusing_bind example_settings stored_settings)
      (lit ''chat_model'') = Some (SqlText (lit ''gpt-4o''))"
    by (simp add: stmt_bind_def)
  from w [rule_format, of "lit ''user_name''"] d2
  have c5: "fst (post_settings refusing_bind example_settings stored_settings)
      (lit ''user_name'') = Some SqlNull"
    by (simp add: stmt_bind_def)
  have sf: "settings_fields =
      [(''chat_api_url'', chat_api_url)] @ (''chat_api_key'', chat_api_key) #
      tl (tl settings_fields)"
    by (simp add: settings_fields_def)
  have pre: "\<forall>(n, f) \<in> set [(''chat_api_url'', chat_api_url)].
               bindable refusing_bind (f boolean_settings)"
    by (simp add: bindable_def stmt_bind_def body_eval)
  have g: "chat_api_key boolean_settings \<noteq> JUndefined"
    "stmt_bind refusing_bind (chat_api_key boolean_settings) = Inl TypeError"
    by (simp_all add: stmt_bind_def refusing_bind_def body_eval)
  note thr = b [THEN conjunct2, THEN conjunct2, THEN conjunct1, rule_format,
      of "[(''chat_api_url'', chat_api_url)]" "''chat_api_key''" chat_api_key
         "tl (tl settings_fields)" TypeError, OF conjI [OF sf conjI [OF pre conjI [OF g]]]]
  from thr have c6: "snd (post_settings refusing_bind boolean_settings stored_settings) = 500"
    by blast
  from thr [THEN conjunct2, rule_format, of "lit ''chat_api_url''"]
  have c7: "fst (post_settings refusing_bind boolean_settings stored_settings)
      (lit ''chat_api_url'') = Some (SqlText (lit ''https://api''))"
    by (simp add: field_of_def stmt_bind_def boolean_settings_def no_settings_def lit_def)
  from thr [THEN conjunct2, rule_format, of "lit ''chat_model''"] t3
  have c8: "fst (post_settings refusing_bind boolean_settings stored_settings)
      (lit ''chat_model'') = Some (SqlText (lit ''old''))"
    by (simp add: field_of_def lit_def)
  from c1 c2 c3 c4 c5 c6 c7 c8 show ?thesis by blast
qed

text \<open>
  A request whose first field is a boolean, which the database library refuses to
  bind: the key of the second field, a string, is not written.
\<close>

theorem post_settings_counterexample:
  "body_field boolean_first_settings (lit ''chat_api_key'') = JStr (lit ''sk-1'') \<and>
   fst (post_settings refusing_bind boolean_first_settings Map.empty) (lit ''chat_api_key'') = None \<and>
   snd (post_settings refusing_bind boolean_first_settings Map.empty) = 500"
proof -
  have "post_settings refusing_bind boolean_first_settings Map.empty = (Map.empty, 500)"
    by (simp add: post_settings_def body_eval run_if_defined_simps)
  moreover have "body_field boolean_first_settings (lit ''chat_api_key'') = JStr (lit ''sk-1'')"
    by (simp add: field_eval)
  ultimately show ?thesis by simp
qed

end
